theory Spec2Isabelle
  imports Complex_Main "HOL-Library.Char_ord" "HOL-Library.List_Lexorder" "HOL-Library.Sublist"
begin

section \<open>Python values\<close>

text \<open>
  The pipeline passes untyped Python data around: source records, parsed LLM responses
  and the message map are dictionaries whose values are strings, numbers, lists and
  further dictionaries. One datatype covers them. A dictionary is an association list in
  insertion order; its keys are values too, since the per-source counter of the report
  assembler is keyed by whatever a record holds under \<open>source\<close>. Floating-point numbers
  are not modelled.
\<close>

datatype pyval =
    PNone
  | PBool bool
  | PInt int
  | PStr string
  | PList "pyval list"
  | PDict "(pyval \<times> pyval) list"

type_synonym pydict = "(pyval \<times> pyval) list"

text \<open>Exceptions carry their class and the message that \<open>str(e)\<close> returns.\<close>

datatype exn_class =
  APIError | JSONDecodeError | KeyError | IndexError | TypeError | AttributeError | OtherError

datatype exn = Exn exn_class string

fun exn_str :: "exn \<Rightarrow> string" where
  "exn_str (Exn c msg) = msg"

fun is_json_decode_error :: "exn \<Rightarrow> bool" where
  "is_json_decode_error (Exn c msg) = (c = JSONDecodeError)"

text \<open>Sequencing of statements that may raise: the first exception ends the block.\<close>

definition ebind :: "exn + 'a \<Rightarrow> ('a \<Rightarrow> exn + 'b) \<Rightarrow> exn + 'b" where
  "ebind m f = (case m of Inl e \<Rightarrow> Inl e | Inr x \<Rightarrow> f x)"

text \<open>Truth value of an object, as \<open>if x\<close>, \<open>x or y\<close> and \<open>not x\<close> test it.\<close>

fun truthy :: "pyval \<Rightarrow> bool" where
  "truthy PNone = False"
| "truthy (PBool b) = b"
| "truthy (PInt i) = (i \<noteq> 0)"
| "truthy (PStr s) = (s \<noteq> [])"
| "truthy (PList xs) = (xs \<noteq> [])"
| "truthy (PDict d) = (d \<noteq> [])"

text \<open>\<open>key in d\<close> and \<open>d.get(key, default)\<close> on a dictionary, for a string key.\<close>

definition lookup :: "pydict \<Rightarrow> string \<Rightarrow> pyval option" where
  "lookup d k = map_of d (PStr k)"

definition has_key :: "pydict \<Rightarrow> string \<Rightarrow> bool" where
  "has_key d k = (lookup d k \<noteq> None)"

definition dict_get :: "pydict \<Rightarrow> string \<Rightarrow> pyval \<Rightarrow> pyval" where
  "dict_get d k dflt = (case lookup d k of None \<Rightarrow> dflt | Some v \<Rightarrow> v)"

text \<open>\<open>x.get(key, default)\<close> on an arbitrary object: only a dictionary has the method.\<close>

fun py_get :: "pyval \<Rightarrow> string \<Rightarrow> pyval \<Rightarrow> exn + pyval" where
  "py_get (PDict d) k dflt = Inr (dict_get d k dflt)"
| "py_get v k dflt = Inl (Exn AttributeError ''object has no attribute get'')"

text \<open>\<open>x.items()\<close>.\<close>

fun py_items :: "pyval \<Rightarrow> exn + (pyval \<times> pyval) list" where
  "py_items (PDict d) = Inr d"
| "py_items v = Inl (Exn AttributeError ''object has no attribute items'')"

text \<open>
  \<open>for x in v\<close>: a list yields its elements, a dictionary its keys, a string its
  characters; nothing else in this model is iterable.
\<close>

fun py_iter :: "pyval \<Rightarrow> exn + pyval list" where
  "py_iter (PList xs) = Inr xs"
| "py_iter (PDict d) = Inr (map fst d)"
| "py_iter (PStr s) = Inr (map (\<lambda>c. PStr [c]) s)"
| "py_iter v = Inl (Exn TypeError ''object is not iterable'')"

text \<open>\<open>len(v)\<close>.\<close>

fun py_len :: "pyval \<Rightarrow> exn + int" where
  "py_len (PList xs) = Inr (int (length xs))"
| "py_len (PDict d) = Inr (int (length d))"
| "py_len (PStr s) = Inr (int (length s))"
| "py_len v = Inl (Exn TypeError ''object has no len()'')"

text \<open>The integer a value stands for where Python expects one: \<open>bool\<close> is a subclass of \<open>int\<close>.\<close>

fun as_int :: "pyval \<Rightarrow> int option" where
  "as_int (PInt i) = Some i"
| "as_int (PBool b) = Some (if b then 1 else 0)"
| "as_int v = None"

text \<open>
  \<open>xs[i]\<close> on a list: a negative index counts from the end, and an index outside
  \<open>-len(xs) .. len(xs) - 1\<close> raises \<open>IndexError\<close>.
\<close>

definition list_index :: "'a list \<Rightarrow> int \<Rightarrow> exn + 'a" where
  "list_index xs i =
     (if 0 \<le> i \<and> i < int (length xs) then Inr (xs ! nat i)
      else if i < 0 \<and> - int (length xs) \<le> i then Inr (xs ! nat (int (length xs) + i))
      else Inl (Exn IndexError ''list index out of range''))"

text \<open>
  \<open>v[0]\<close> and \<open>v[key]\<close> for a string constant \<open>key\<close>. The interpreter's own
  exceptions keep their class here; their message, which depends on the Python version,
  is shortened (a \<open>KeyError\<close> carries the key).
\<close>

fun py_getitem0 :: "pyval \<Rightarrow> exn + pyval" where
  "py_getitem0 (PList xs) = list_index xs 0"
| "py_getitem0 (PStr s) = map_sum id (\<lambda>c. PStr [c]) (list_index s 0)"
| "py_getitem0 (PDict d) =
     (case find (\<lambda>(k, v). as_int k = Some 0) d of
        Some (k, v) \<Rightarrow> Inr v
      | None \<Rightarrow> Inl (Exn KeyError ''0''))"
| "py_getitem0 v = Inl (Exn TypeError ''object is not subscriptable'')"

fun py_getitem_str :: "pyval \<Rightarrow> string \<Rightarrow> exn + pyval" where
  "py_getitem_str (PDict d) k =
     (case lookup d k of
        Some v \<Rightarrow> Inr v
      | None \<Rightarrow> Inl (Exn KeyError (CHR 0x27 # k @ [CHR 0x27])))"
| "py_getitem_str (PList xs) k = Inl (Exn TypeError ''list indices must be integers or slices, not str'')"
| "py_getitem_str (PStr s) k = Inl (Exn TypeError ''string indices must be integers'')"
| "py_getitem_str v k = Inl (Exn TypeError ''object is not subscriptable'')"

text \<open>\<open>sep.join(xs)\<close> on a list of strings.\<close>

fun join :: "string \<Rightarrow> string list \<Rightarrow> string" where
  "join sep [] = []"
| "join sep [x] = x"
| "join sep (x # y # ys) = x @ sep @ join sep (y # ys)"

section \<open>The analysis orchestrator (\<open>analysis/claude_analyzer.py\<close>)\<close>

subsection \<open>The LLM client and the JSON codec\<close>

text \<open>
  \<open>client.messages.create\<close> is a blocking call to an external service. It is a
  parameter of the model: from the state of the outside world and the request it gives
  either an exception or the text of each content block of the reply, and the next state
  of the world. Every call advances the world, so a second call is visible in the
  state that a pass returns. \<open>json.loads\<close> and \<open>json.dumps(_, indent=2)\<close> are
  parameters as well: \<open>loads\<close> gives the parsed value or the exception it raises.
\<close>

record request =
  model :: string
  max_tokens :: int
  temperature :: rat
  content :: string

type_synonym 's llm = "'s \<Rightarrow> request \<Rightarrow> (exn + string list) \<times> 's"

type_synonym json_loads = "string \<Rightarrow> exn + pyval"

type_synonym json_dumps = "pyval \<Rightarrow> string"

text \<open>\<open>message.content[0].text\<close>.\<close>

definition first_text :: "string list \<Rightarrow> exn + string" where
  "first_text blocks = list_index blocks 0"

text \<open>\<open>try: body except json.JSONDecodeError: handler\<close> and \<open>try: body except Exception as e: handler\<close>.\<close>

definition except_decode_error :: "exn + 'a \<Rightarrow> 'a \<Rightarrow> exn + 'a" where
  "except_decode_error body handler =
     (case body of
        Inl e \<Rightarrow> if is_json_decode_error e then Inr handler else Inl e
      | Inr x \<Rightarrow> Inr x)"

definition except_exception :: "exn + 'a \<Rightarrow> (exn \<Rightarrow> 'a) \<Rightarrow> exn + 'a" where
  "except_exception body handler =
     (case body of
        Inl e \<Rightarrow> Inr (handler e)
      | Inr x \<Rightarrow> Inr x)"

text \<open>A loop whose body may raise: the exception leaves the loop.\<close>

fun efold :: "('a \<Rightarrow> 'b \<Rightarrow> exn + 'b) \<Rightarrow> 'a list \<Rightarrow> 'b \<Rightarrow> exn + 'b" where
  "efold f [] acc = Inr acc"
| "efold f (x # xs) acc =
     (case f x acc of
        Inl e \<Rightarrow> Inl e
      | Inr acc' \<Rightarrow> efold f xs acc')"

subsection \<open>Pattern extraction: \<open>_build_analysis_prompt\<close> and \<open>analyze_batch\<close>\<close>

definition analysis_prompt_intro :: string where
  \<open>analysis_prompt_intro =
     ''You are an expert copywriter and customer research analyst. Analyze the following customer language samples to extract insights for advertising and marketing.\<newline>'' @
     ''\<newline>''\<close>

definition analysis_prompt_samples :: string where
  \<open>analysis_prompt_samples =
     ''\<newline>'' @
     ''\<newline>'' @
     ''CUSTOMER LANGUAGE SAMPLES:\<newline>''\<close>

definition analysis_prompt_schema :: string where
  \<open>analysis_prompt_schema =
     ''\<newline>'' @
     ''\<newline>'' @
     ''Please analyze these samples and provide a comprehensive JSON response with the following structure:\<newline>'' @
     ''\<newline>'' @
     ''{\<newline>'' @
     ''  "emotional_patterns": [\<newline>'' @
     ''    {\<newline>'' @
     ''      "emotion": "name of emotion (e.g., frustration, hope, fear, desire)",\<newline>'' @
     ''      "frequency": "high/medium/low",\<newline>'' @
     ''      "example_quotes": ["quote 1", "quote 2", "quote 3"],\<newline>'' @
     ''      "trigger_words": ["word1", "word2"],\<newline>'' @
     ''      "advertising_angle": "how to use this emotion in ads"\<newline>'' @
     ''    }\<newline>'' @
     ''  ],\<newline>'' @
     ''  "pain_points": [\<newline>'' @
     ''    {\<newline>'' @
     ''      "pain_point": "description of the problem",\<newline>'' @
     ''      "severity": "critical/major/minor",\<newline>'' @
     ''      "frequency_mentioned": "percentage or count",\<newline>'' @
     ''      "customer_quotes": ["quote 1", "quote 2"],\<newline>'' @
     ''      "before_state": "how customers describe life before solution",\<newline>'' @
     ''      "desired_outcome": "what they want instead"\<newline>'' @
     ''    }\<newline>'' @
     ''  ],\<newline>'' @
     ''  "desire_triggers": [\<newline>'' @
     ''    {\<newline>'' @
     ''      "desire": "what customers want to achieve/become",\<newline>'' @
     ''      "intensity": "high/medium/low",\<newline>'' @
     ''      "language_patterns": ["pattern 1", "pattern 2"],\<newline>'' @
     ''      "example_quotes": ["quote 1", "quote 2"],\<newline>'' @
     ''      "aspirational_identity": "who they want to be"\<newline>'' @
     ''    }\<newline>'' @
     ''  ],\<newline>'' @
     ''  "awareness_stages": {\<newline>'' @
     ''    "unaware": {\<newline>'' @
     ''      "indicators": ["phrases that show no awareness of problem"],\<newline>'' @
     ''      "quotes": ["example quotes"]\<newline>'' @
     ''    },\<newline>'' @
     ''    "problem_aware": {\<newline>'' @
     ''      "indicators": ["phrases showing they know the problem"],\<newline>'' @
     ''      "quotes": ["example quotes"]\<newline>'' @
     ''    },\<newline>'' @
     ''    "solution_aware": {\<newline>'' @
     ''      "indicators": ["phrases showing they know solutions exist"],\<newline>'' @
     ''      "quotes": ["example quotes"]\<newline>'' @
     ''    },\<newline>'' @
     ''    "product_aware": {\<newline>'' @
     ''      "indicators": ["phrases showing they know specific products"],\<newline>'' @
     ''      "quotes": ["example quotes"]\<newline>'' @
     ''    },\<newline>'' @
     ''    "most_aware": {\<newline>'' @
     ''      "indicators": ["phrases from current/past customers"],\<newline>'' @
     ''      "quotes": ["example quotes"]\<newline>'' @
     ''    }\<newline>'' @
     ''  },\<newline>'' @
     ''  "language_patterns": {\<newline>'' @
     ''    "commonly_used_phrases": ["phrase 1", "phrase 2"],\<newline>'' @
     ''    "metaphors_analogies": ["metaphor 1", "metaphor 2"],\<newline>'' @
     ''    "objections": ["objection 1", "objection 2"],\<newline>'' @
     ''    "questions_asked": ["question 1", "question 2"],\<newline>'' @
     ''    "vocabulary_level": "simple/moderate/technical",\<newline>'' @
     ''    "tone": "casual/professional/emotional"\<newline>'' @
     ''  },\<newline>'' @
     ''  "key_insights": [\<newline>'' @
     ''    "insight 1",\<newline>'' @
     ''    "insight 2",\<newline>'' @
     ''    "insight 3"\<newline>'' @
     ''  ]\<newline>'' @
     ''}\<newline>'' @
     ''\<newline>'' @
     ''Focus on extracting EXACT phrases and quotes that can be used directly in ad copy. Prioritize emotional, vivid language over generic descriptions.''\<close>

definition text_separator :: string where
  "text_separator = ''\<newline>\<newline>---\<newline>\<newline>''"

text \<open>
  \<open>combined_texts = "\n\n---\n\n".join(texts[:100])\<close>, set into the f-string. The
  arguments are typed \<open>List[str]\<close> and \<open>str\<close>.
\<close>

definition combined_texts :: "string list \<Rightarrow> string" where
  "combined_texts texts = join text_separator (take 100 texts)"

definition build_analysis_prompt :: "string list \<Rightarrow> string \<Rightarrow> string" where
  "build_analysis_prompt texts context =
     analysis_prompt_intro
     @ (if context \<noteq> [] then ''PRODUCT/CATEGORY CONTEXT: '' @ context else [])
     @ analysis_prompt_samples
     @ combined_texts texts
     @ analysis_prompt_schema"

definition analyze_batch ::
  "'s llm \<Rightarrow> json_loads \<Rightarrow> string \<Rightarrow> 's \<Rightarrow> string list \<Rightarrow> string \<Rightarrow> int \<Rightarrow> (exn + pyval) \<times> 's" where
  "analyze_batch create loads mdl s texts context max_tok =
     (let prompt = build_analysis_prompt texts context;
          (reply, s') = create s \<lparr>model = mdl, max_tokens = max_tok, temperature = 3 / 10, content = prompt\<rparr>;
          body =
            ebind reply (\<lambda>message.
            ebind (first_text message) (\<lambda>response_text.
              except_decode_error (loads response_text)
                (PDict [(PStr ''raw_analysis'', PStr response_text)])))
      in (except_exception body (\<lambda>e. PDict [(PStr ''error'', PStr (exn_str e))]), s'))"

subsection \<open>Ad-framework generation: \<open>generate_ad_copy_framework\<close>\<close>

definition framework_prompt_intro :: string where
  \<open>framework_prompt_intro =
     ''Based on the following customer language analysis, create ad-ready hooks and body copy frameworks.\<newline>'' @
     ''\<newline>'' @
     ''ANALYSIS DATA:\<newline>''\<close>

definition framework_prompt_schema :: string where
  \<open>framework_prompt_schema =
     ''\<newline>'' @
     ''\<newline>'' @
     ''Generate a JSON response with this structure:\<newline>'' @
     ''\<newline>'' @
     ''{\<newline>'' @
     ''  "hooks": {\<newline>'' @
     ''    "problem_aware": [\<newline>'' @
     ''      "Hook 1 using customer language",\<newline>'' @
     ''      "Hook 2 using customer language",\<newline>'' @
     ''      "Hook 3 using customer language"\<newline>'' @
     ''    ],\<newline>'' @
     ''    "solution_aware": [\<newline>'' @
     ''      "Hook 1",\<newline>'' @
     ''      "Hook 2",\<newline>'' @
     ''      "Hook 3"\<newline>'' @
     ''    ],\<newline>'' @
     ''    "product_aware": [\<newline>'' @
     ''      "Hook 1",\<newline>'' @
     ''      "Hook 2",\<newline>'' @
     ''      "Hook 3"\<newline>'' @
     ''    ]\<newline>'' @
     ''  },\<newline>'' @
     ''  "body_copy_frameworks": [\<newline>'' @
     ''    {\<newline>'' @
     ''      "framework_name": "Problem-Agitate-Solution",\<newline>'' @
     ''      "target_awareness": "problem_aware",\<newline>'' @
     ''      "structure": {\<newline>'' @
     ''        "problem": "Using customer's exact language to describe problem",\<newline>'' @
     ''        "agitate": "Making them feel the pain using their words",\<newline>'' @
     ''        "solution": "Presenting solution in their language"\<newline>'' @
     ''      },\<newline>'' @
     ''      "example": "Full example copy using customer quotes"\<newline>'' @
     ''    },\<newline>'' @
     ''    {\<newline>'' @
     ''      "framework_name": "Before-After-Bridge",\<newline>'' @
     ''      "target_awareness": "solution_aware",\<newline>'' @
     ''      "structure": {\<newline>'' @
     ''        "before": "Customer's current state in their words",\<newline>'' @
     ''        "after": "Desired outcome in their words",\<newline>'' @
     ''        "bridge": "How to get there"\<newline>'' @
     ''      },\<newline>'' @
     ''      "example": "Full example copy"\<newline>'' @
     ''    }\<newline>'' @
     ''  ],\<newline>'' @
     ''  "headline_formulas": [\<newline>'' @
     ''    "Formula 1 with customer language",\<newline>'' @
     ''    "Formula 2 with customer language"\<newline>'' @
     ''  ],\<newline>'' @
     ''  "call_to_action_suggestions": [\<newline>'' @
     ''    "CTA 1 based on desires",\<newline>'' @
     ''    "CTA 2 based on pain points"\<newline>'' @
     ''  ],\<newline>'' @
     ''  "objection_handlers": [\<newline>'' @
     ''    {\<newline>'' @
     ''      "objection": "Common objection from analysis",\<newline>'' @
     ''      "response": "How to handle it using customer language"\<newline>'' @
     ''    }\<newline>'' @
     ''  ]\<newline>'' @
     ''}\<newline>'' @
     ''\<newline>'' @
     ''Use EXACT customer quotes wherever possible. Make it ready to copy-paste into ads.''\<close>

definition generate_ad_copy_framework ::
  "'s llm \<Rightarrow> json_loads \<Rightarrow> json_dumps \<Rightarrow> string \<Rightarrow> 's \<Rightarrow> pyval \<Rightarrow> int \<Rightarrow> (exn + pyval) \<times> 's" where
  "generate_ad_copy_framework create loads dumps mdl s analysis max_tok =
     (let prompt = framework_prompt_intro @ dumps analysis @ framework_prompt_schema;
          (reply, s') = create s \<lparr>model = mdl, max_tokens = max_tok, temperature = 4 / 10, content = prompt\<rparr>;
          body =
            ebind reply (\<lambda>message.
            ebind (first_text message) (\<lambda>response_text.
              except_decode_error (loads response_text)
                (PDict [(PStr ''raw_framework'', PStr response_text)])))
      in (except_exception body (\<lambda>e. PDict [(PStr ''error'', PStr (exn_str e))]), s'))"

subsection \<open>Awareness categorization: \<open>categorize_by_awareness\<close>\<close>

definition awareness_prompt_intro :: string where
  \<open>awareness_prompt_intro =
     ''Categorize each of these customer texts by Eugene Schwartz's 5 stages of awareness:\<newline>'' @
     ''1. Unaware - Don't know they have a problem\<newline>'' @
     ''2. Problem Aware - Know the problem, not the solution\<newline>'' @
     ''3. Solution Aware - Know solutions exist, not which one\<newline>'' @
     ''4. Product Aware - Know about specific products/options\<newline>'' @
     ''5. Most Aware - Ready to buy, just comparing\<newline>'' @
     ''\<newline>'' @
     ''TEXTS TO CATEGORIZE:\<newline>''\<close>

definition awareness_prompt_schema :: string where
  \<open>awareness_prompt_schema =
     ''\<newline>'' @
     ''\<newline>'' @
     ''Respond with JSON:\<newline>'' @
     ''{\<newline>'' @
     ''  "categorized": [\<newline>'' @
     ''    {\<newline>'' @
     ''      "text_index": 0,\<newline>'' @
     ''      "stage": "problem_aware",\<newline>'' @
     ''      "confidence": "high/medium/low",\<newline>'' @
     ''      "reasoning": "why this categorization"\<newline>'' @
     ''    }\<newline>'' @
     ''  ]\<newline>'' @
     ''}''\<close>

text \<open>The result is typed \<open>Dict[str, List[Dict]]\<close>; \<open>{}\<close> is the empty list.\<close>

type_synonym buckets = "(string \<times> pydict list) list"

definition empty_buckets :: buckets where
  "empty_buckets =
     [(''unaware'', []), (''problem_aware'', []), (''solution_aware'', []),
      (''product_aware'', []), (''most_aware'', [])]"

text \<open>\<open>idx < len(data)\<close>: an integer (or a \<open>bool\<close>) is compared, anything else raises.\<close>

definition idx_lt_len :: "pyval \<Rightarrow> 'a list \<Rightarrow> exn + bool" where
  "idx_lt_len idx data =
     (case as_int idx of
        Some i \<Rightarrow> Inr (i < int (length data))
      | None \<Rightarrow> Inl (Exn TypeError ''< not supported between these instances''))"

text \<open>\<open>stage in categorized\<close>: the key is hashed first, and a list or a dictionary has no hash.\<close>

fun stage_in :: "pyval \<Rightarrow> buckets \<Rightarrow> exn + bool" where
  "stage_in (PStr st) cat = Inr (st \<in> set (map fst cat))"
| "stage_in (PList xs) cat = Inl (Exn TypeError ''unhashable type: list'')"
| "stage_in (PDict d) cat = Inl (Exn TypeError ''unhashable type: dict'')"
| "stage_in v cat = Inr False"

text \<open>\<open>data[idx]\<close>, reached only after \<open>idx < len(data)\<close> has been evaluated.\<close>

definition data_at :: "'a list \<Rightarrow> pyval \<Rightarrow> exn + 'a" where
  "data_at data idx =
     (case as_int idx of
        Some i \<Rightarrow> list_index data i
      | None \<Rightarrow> Inl (Exn TypeError ''list indices must be integers or slices''))"

text \<open>\<open>categorized[stage].append(x)\<close> for a stage that is a key.\<close>

definition bucket_append :: "buckets \<Rightarrow> string \<Rightarrow> pydict \<Rightarrow> buckets" where
  "bucket_append cat st x = map (\<lambda>(k, xs). if k = st then (k, xs @ [x]) else (k, xs)) cat"

fun stage_name :: "pyval \<Rightarrow> string" where
  "stage_name (PStr st) = st"
| "stage_name v = []"

text \<open>The body of the loop over \<open>result.get('categorized', [])\<close>.\<close>

definition bucket_step :: "pydict list \<Rightarrow> pyval \<Rightarrow> buckets \<Rightarrow> exn + buckets" where
  "bucket_step data item cat =
     ebind (py_getitem_str item ''text_index'') (\<lambda>idx.
     ebind (py_getitem_str item ''stage'') (\<lambda>stage.
     ebind (idx_lt_len idx data) (\<lambda>below.
       if below then
         ebind (stage_in stage cat) (\<lambda>known.
           if known then
             ebind (data_at data idx) (\<lambda>x. Inr (bucket_append cat (stage_name stage) x))
           else Inr cat)
       else Inr cat)))"

text \<open>\<open>[item[text_field] for item in data if text_field in item][:50]\<close>.\<close>

definition sampled_texts :: "pydict list \<Rightarrow> string \<Rightarrow> pyval list" where
  "sampled_texts data text_field = take 50 (List.map_filter (\<lambda>item. lookup item text_field) data)"

definition awareness_request :: "json_dumps \<Rightarrow> string \<Rightarrow> pyval list \<Rightarrow> request" where
  "awareness_request dumps mdl texts =
     \<lparr>model = mdl, max_tokens = 3000, temperature = 2 / 10,
      content = awareness_prompt_intro @ dumps (PList texts) @ awareness_prompt_schema\<rparr>"

definition categorize_by_awareness ::
  "'s llm \<Rightarrow> json_loads \<Rightarrow> json_dumps \<Rightarrow> string \<Rightarrow> 's \<Rightarrow> pydict list \<Rightarrow> string \<Rightarrow> (exn + buckets) \<times> 's" where
  "categorize_by_awareness create loads dumps mdl s data text_field =
     (let texts = sampled_texts data text_field
      in if texts = [] then (Inr [], s)
         else
           (let (reply, s') = create s (awareness_request dumps mdl texts);
                body =
                  ebind reply (\<lambda>message.
                  ebind (first_text message) (\<lambda>response_text.
                  ebind (loads response_text) (\<lambda>result.
                  ebind (py_get result ''categorized'' (PList [])) (\<lambda>assignments.
                  ebind (py_iter assignments) (\<lambda>items.
                    efold (bucket_step data) items empty_buckets)))))
            in (except_exception body (\<lambda>e. []), s')))"

section \<open>The corpus builder (\<open>analyze_data\<close> in \<open>main.py\<close>)\<close>

text \<open>
  The body of the inner loops: \<open>if isinstance(comment, dict) and 'text' in comment:
  texts.append(comment['text'])\<close>.
\<close>

definition append_nested_text :: "pyval \<Rightarrow> pyval list \<Rightarrow> pyval list" where
  "append_nested_text comment texts =
     (case comment of
        PDict d \<Rightarrow> (if has_key d ''text'' then texts @ [dict_get d ''text'' PNone] else texts)
      | _ \<Rightarrow> texts)"

text \<open>\<open>if key in item and item[key]: texts.append(item[key])\<close>.\<close>

definition append_own_text :: "pydict \<Rightarrow> string \<Rightarrow> pyval list \<Rightarrow> pyval list" where
  "append_own_text item key texts =
     (if has_key item key \<and> truthy (dict_get item key PNone)
      then texts @ [dict_get item key PNone] else texts)"

text \<open>\<open>if key in item: for comment in item[key]: ...\<close>; the iteration raises on a value that is not iterable.\<close>

definition append_nested_texts :: "pydict \<Rightarrow> string \<Rightarrow> pyval list \<Rightarrow> exn + pyval list" where
  "append_nested_texts item key texts =
     (if has_key item key
      then ebind (py_iter (dict_get item key PNone)) (\<lambda>comments. Inr (fold append_nested_text comments texts))
      else Inr texts)"

text \<open>One round of \<open>for item in data\<close>, and the whole loop, started with \<open>texts = []\<close>.\<close>

definition extract_item :: "pydict \<Rightarrow> pyval list \<Rightarrow> exn + pyval list" where
  "extract_item item texts =
     ebind (append_nested_texts item ''comments''
              (append_own_text item ''title'' (append_own_text item ''text'' texts)))
       (append_nested_texts item ''replies'')"

definition extract_texts :: "pydict list \<Rightarrow> exn + pyval list" where
  "extract_texts data = efold extract_item data []"









section \<open>The report assembler (\<open>output_generator/message_map.py\<close>)\<close>

subsection \<open>Comparison of values, \<open>min\<close> and \<open>max\<close>\<close>

text \<open>
  \<open>a == b\<close>: numbers by value (\<open>True == 1\<close>), strings and lists by content, dictionaries by
  their key-value pairs whatever the order of insertion; values of different kinds are
  unequal. It never raises.
\<close>

definition key_eq :: "pyval \<Rightarrow> pyval \<Rightarrow> bool" where
  "key_eq a b =
     (case (a, b) of
        (PStr x, PStr y) \<Rightarrow> x = y
      | (PNone, PNone) \<Rightarrow> True
      | _ \<Rightarrow> as_int a \<noteq> None \<and> as_int a = as_int b)"

fun py_eq :: "pyval \<Rightarrow> pyval \<Rightarrow> bool" where
  "py_eq (PList xs) (PList ys) = list_all2 py_eq xs ys"
| "py_eq (PDict d) (PDict d') =
     (length d = length d' \<and>
      list_all (\<lambda>(k, v). list_ex (\<lambda>(k', v'). key_eq k k' \<and> py_eq v v') d') d)"
| "py_eq a b = key_eq a b"

text \<open>
  \<open>a < b\<close>: defined between two numbers, between two strings (by code point, which is
  the order of their UTF-8 bytes) and between two lists (at the first pair of unequal
  elements, or else by length); every other pair raises \<open>TypeError\<close>.
\<close>

fun py_lt :: "pyval \<Rightarrow> pyval \<Rightarrow> exn + bool"
  and list_lt :: "pyval list \<Rightarrow> pyval list \<Rightarrow> exn + bool" where
  "py_lt (PStr a) (PStr b) = Inr (a < b)"
| "py_lt (PList xs) (PList ys) = list_lt xs ys"
| "py_lt a b =
     (case (as_int a, as_int b) of
        (Some i, Some j) \<Rightarrow> Inr (i < j)
      | _ \<Rightarrow> Inl (Exn TypeError ''< not supported between these instances''))"
| "list_lt [] [] = Inr False"
| "list_lt [] (y # ys) = Inr True"
| "list_lt (x # xs) [] = Inr False"
| "list_lt (x # xs) (y # ys) = (if py_eq x y then list_lt xs ys else py_lt x y)"

text \<open>
  \<open>min(xs)\<close> and \<open>max(xs)\<close> keep the first element and replace it by a later one that is
  smaller, respectively greater; on the empty list they raise \<open>ValueError\<close>.
\<close>

fun min_from :: "pyval \<Rightarrow> pyval list \<Rightarrow> exn + pyval" where
  "min_from best [] = Inr best"
| "min_from best (x # xs) =
     (case py_lt x best of
        Inl e \<Rightarrow> Inl e
      | Inr smaller \<Rightarrow> min_from (if smaller then x else best) xs)"

fun max_from :: "pyval \<Rightarrow> pyval list \<Rightarrow> exn + pyval" where
  "max_from best [] = Inr best"
| "max_from best (x # xs) =
     (case py_lt best x of
        Inl e \<Rightarrow> Inl e
      | Inr larger \<Rightarrow> max_from (if larger then x else best) xs)"

fun py_min :: "pyval list \<Rightarrow> exn + pyval" where
  "py_min [] = Inl (Exn OtherError ''min() arg is an empty sequence'')"
| "py_min (x # xs) = min_from x xs"

fun py_max :: "pyval list \<Rightarrow> exn + pyval" where
  "py_max [] = Inl (Exn OtherError ''max() arg is an empty sequence'')"
| "py_max (x # xs) = max_from x xs"

subsection \<open>\<open>_get_date_range\<close>\<close>

text \<open>\<open>item.get('created_utc') or item.get('published_at') or item.get('date')\<close>.\<close>

definition date_str_of :: "pydict \<Rightarrow> pyval" where
  "date_str_of item =
     (if truthy (dict_get item ''created_utc'' PNone) then dict_get item ''created_utc'' PNone
      else if truthy (dict_get item ''published_at'' PNone) then dict_get item ''published_at'' PNone
      else dict_get item ''date'' PNone)"

definition collect_date :: "pydict \<Rightarrow> pyval list \<Rightarrow> pyval list" where
  "collect_date item dates = (if truthy (date_str_of item) then dates @ [date_str_of item] else dates)"

definition get_date_range :: "pydict list \<Rightarrow> exn + pydict" where
  "get_date_range raw_data =
     (let dates = fold collect_date raw_data []
      in if dates \<noteq> [] then
           ebind (py_min dates) (\<lambda>earliest.
           ebind (py_max dates) (\<lambda>latest.
             Inr [(PStr ''earliest'', earliest), (PStr ''latest'', latest)]))
         else Inr [(PStr ''earliest'', PStr ''N/A''), (PStr ''latest'', PStr ''N/A'')])"

text \<open>
  The timestamp that a record contributes, in the words of the specification: the
  first field that is present, in the order \<open>created_utc\<close>, \<open>published_at\<close>, \<open>date\<close>.
\<close>

definition timestamp_fields :: "string list" where
  "timestamp_fields = [''created_utc'', ''published_at'', ''date'']"

definition first_present_timestamp :: "pydict \<Rightarrow> pyval option" where
  "first_present_timestamp item =
     (case List.map_filter (lookup item) timestamp_fields of [] \<Rightarrow> None | v # vs \<Rightarrow> Some v)"

text \<open>The same with "present" read as "present and not empty".\<close>

definition first_nonempty_timestamp :: "pydict \<Rightarrow> pyval option" where
  "first_nonempty_timestamp item = find truthy (List.map_filter (lookup item) timestamp_fields)"

fun str_of :: "pyval \<Rightarrow> string" where
  "str_of (PStr s) = s"
| "str_of v = []"

fun is_str :: "pyval \<Rightarrow> bool" where
  "is_str (PStr s) = True"
| "is_str v = False"

text \<open>
  The range over the timestamp strings that a rule \<open>pick\<close> takes from the records:
  their lexicographic minimum and maximum, or \<open>N/A\<close> twice when no record gives one.
\<close>

definition range_over :: "(pydict \<Rightarrow> pyval option) \<Rightarrow> pydict list \<Rightarrow> pydict" where
  "range_over pick raw_data =
     (let ds = map str_of (List.map_filter pick raw_data)
      in if ds = [] then [(PStr ''earliest'', PStr ''N/A''), (PStr ''latest'', PStr ''N/A'')]
         else [(PStr ''earliest'', PStr (Min (set ds))), (PStr ''latest'', PStr (Max (set ds)))])"

subsection \<open>\<open>_summarize_raw_data\<close>\<close>

text \<open>
  \<open>sources[source] = sources.get(source, 0) + 1\<close>. The key is hashed, which a list or a
  dictionary does not allow; an equal key that is already there keeps its place.
\<close>

fun hashable :: "pyval \<Rightarrow> bool" where
  "hashable (PList xs) = False"
| "hashable (PDict d) = False"
| "hashable v = True"

fun bump :: "pyval \<Rightarrow> (pyval \<times> int) list \<Rightarrow> (pyval \<times> int) list" where
  "bump k [] = [(k, 1)]"
| "bump k ((k', n) # rest) = (if key_eq k' k then (k', n + 1) # rest else (k', n) # bump k rest)"

definition count_source :: "pydict \<Rightarrow> (pyval \<times> int) list \<Rightarrow> exn + (pyval \<times> int) list" where
  "count_source item sources =
     (let source = dict_get item ''source'' (PStr ''unknown'')
      in if hashable source then Inr (bump source sources)
         else Inl (Exn TypeError ''unhashable type''))"

definition summarize_raw_data :: "pydict list \<Rightarrow> exn + pydict" where
  "summarize_raw_data raw_data =
     ebind (efold count_source raw_data []) (\<lambda>sources.
     ebind (get_date_range raw_data) (\<lambda>date_range.
       Inr [(PStr ''total_items'', PInt (int (length raw_data))),
            (PStr ''sources'', PDict (map (\<lambda>(k, n). (k, PInt n)) sources)),
            (PStr ''date_range'', PDict date_range)]))"

subsection \<open>\<open>_generate_summary\<close> and \<open>generate_message_map\<close>\<close>

text \<open>\<open>xs[0][key] if xs else "N/A"\<close>.\<close>

definition first_field :: "pyval \<Rightarrow> string \<Rightarrow> exn + pyval" where
  "first_field xs key =
     (if truthy xs then ebind (py_getitem0 xs) (\<lambda>x. py_getitem_str x key)
      else Inr (PStr ''N/A''))"

definition generate_summary :: "pydict \<Rightarrow> exn + pydict" where
  "generate_summary analysis =
     (let pain_points = dict_get analysis ''pain_points'' (PList []);
          emotions = dict_get analysis ''emotional_patterns'' (PList []);
          desires = dict_get analysis ''desire_triggers'' (PList [])
      in ebind (first_field pain_points ''pain_point'') (\<lambda>top_pain_point.
         ebind (first_field emotions ''emotion'') (\<lambda>dominant_emotion.
         ebind (first_field desires ''desire'') (\<lambda>primary_desire.
         ebind (py_len emotions) (\<lambda>total_emotional_patterns.
         ebind (py_len pain_points) (\<lambda>total_pain_points.
         ebind (py_len desires) (\<lambda>total_desire_triggers.
           Inr [(PStr ''top_pain_point'', top_pain_point),
                (PStr ''dominant_emotion'', dominant_emotion),
                (PStr ''primary_desire'', primary_desire),
                (PStr ''total_emotional_patterns'', PInt total_emotional_patterns),
                (PStr ''total_pain_points'', PInt total_pain_points),
                (PStr ''total_desire_triggers'', PInt total_desire_triggers)])))))))"

text \<open>
  \<open>datetime.now().isoformat()\<close> is the parameter \<open>now\<close>. \<open>raw_data\<close> and \<open>metadata\<close>
  default to \<open>None\<close>; \<open>metadata or {}\<close> and \<open>... if raw_data else None\<close> test their truth
  value.
\<close>

definition generate_message_map ::
  "string \<Rightarrow> pydict \<Rightarrow> pydict \<Rightarrow> pydict list option \<Rightarrow> pydict option \<Rightarrow> exn + pydict" where
  "generate_message_map now analysis ad_framework raw_data metadata =
     ebind (generate_summary analysis) (\<lambda>executive_summary.
     ebind (case raw_data of
              None \<Rightarrow> Inr PNone
            | Some items \<Rightarrow>
                if items \<noteq> [] then map_sum id PDict (summarize_raw_data items) else Inr PNone)
       (\<lambda>raw_data_summary.
       Inr [(PStr ''generated_at'', PStr now),
            (PStr ''metadata'', PDict (case metadata of None \<Rightarrow> [] | Some m \<Rightarrow> m)),
            (PStr ''executive_summary'', PDict executive_summary),
            (PStr ''emotional_intelligence'', dict_get analysis ''emotional_patterns'' (PList [])),
            (PStr ''pain_points'', dict_get analysis ''pain_points'' (PList [])),
            (PStr ''desire_triggers'', dict_get analysis ''desire_triggers'' (PList [])),
            (PStr ''awareness_stages'', dict_get analysis ''awareness_stages'' (PDict [])),
            (PStr ''language_patterns'', dict_get analysis ''language_patterns'' (PDict [])),
            (PStr ''ad_ready_hooks'', dict_get ad_framework ''hooks'' (PDict [])),
            (PStr ''body_copy_frameworks'', dict_get ad_framework ''body_copy_frameworks'' (PList [])),
            (PStr ''headline_formulas'', dict_get ad_framework ''headline_formulas'' (PList [])),
            (PStr ''call_to_actions'', dict_get ad_framework ''call_to_action_suggestions'' (PList [])),
            (PStr ''objection_handlers'', dict_get ad_framework ''objection_handlers'' (PList [])),
            (PStr ''key_insights'', dict_get analysis ''key_insights'' (PList [])),
            (PStr ''raw_data_summary'', raw_data_summary)]))"

section \<open>The renderer (\<open>_generate_markdown\<close> and \<open>_generate_html\<close>)\<close>

subsection \<open>Formatting a value inside an f-string\<close>

text \<open>
  \<open>f"{v}"\<close> is \<open>str(v)\<close> for the values of this model: a string stands for itself, an
  integer for its decimal digits. For a list or a dictionary it is the \<open>repr\<close> of the
  container, which is the parameter \<open>repr\<close> below.
\<close>

fun decimal :: "nat \<Rightarrow> string" where
  "decimal n = (if n < 10 then [char_of (48 + n)] else decimal (n div 10) @ [char_of (48 + n mod 10)])"

declare decimal.simps [simp del]

fun py_str :: "(pyval \<Rightarrow> string) \<Rightarrow> pyval \<Rightarrow> string" where
  "py_str repr (PStr s) = s"
| "py_str repr PNone = ''None''"
| "py_str repr (PBool b) = (if b then ''True'' else ''False'')"
| "py_str repr (PInt i) = (if i < 0 then ''-'' @ decimal (nat (- i)) else decimal (nat i))"
| "py_str repr v = repr v"

text \<open>
  \<open>v.title()\<close> and \<open>v.replace('_', ' ')\<close> are methods of \<open>str\<close> only. The case mapping of
  \<open>str.title\<close> is the parameter \<open>title\<close>.
\<close>

fun py_title :: "(string \<Rightarrow> string) \<Rightarrow> pyval \<Rightarrow> exn + string" where
  "py_title title (PStr s) = Inr (title s)"
| "py_title title v = Inl (Exn AttributeError ''object has no attribute title'')"

fun py_replace_underscores :: "pyval \<Rightarrow> exn + pyval" where
  "py_replace_underscores (PStr s) = Inr (PStr (map (\<lambda>c. if c = CHR ''_'' then CHR '' '' else c) s))"
| "py_replace_underscores v = Inl (Exn AttributeError ''object has no attribute replace'')"

text \<open>
  A loop that appends to the document in every round: the rounds' contributions in
  order, unless one of them raises.
\<close>

fun for_each :: "('a \<Rightarrow> exn + 'b list) \<Rightarrow> 'a list \<Rightarrow> exn + 'b list" where
  "for_each f [] = Inr []"
| "for_each f (x # xs) =
     (case f x of
        Inl e \<Rightarrow> Inl e
      | Inr ys \<Rightarrow> (case for_each f xs of Inl e \<Rightarrow> Inl e | Inr zs \<Rightarrow> Inr (ys @ zs)))"

text \<open>\<open>for x in v: ...\<close> over a value.\<close>

definition for_in :: "pyval \<Rightarrow> (pyval \<Rightarrow> exn + 'b list) \<Rightarrow> exn + 'b list" where
  "for_in v f = ebind (py_iter v) (for_each f)"

text \<open>\<open>enumerate(xs, 1)\<close>.\<close>

definition enumerate1 :: "'a list \<Rightarrow> (int \<times> 'a) list" where
  "enumerate1 xs = zip (map (\<lambda>i. int i + 1) [0..<length xs]) xs"

subsection \<open>The prose encoding\<close>

text \<open>
  \<open>_generate_markdown\<close> appends entries to the list \<open>md\<close> and joins them with newlines
  at the end. Each definition below is one commented block of the function.
\<close>

definition md_title :: "(pyval \<Rightarrow> string) \<Rightarrow> pydict \<Rightarrow> string list" where
  "md_title repr mm =
     [''# Customer Language Message Map'',
      ''\<newline>Generated: '' @ py_str repr (dict_get mm ''generated_at'' (PStr ''N/A'')) @ ''\<newline>'']"

text \<open>The two inner loops that recur: a bullet per element, and a quotation per element.\<close>

definition md_bullets :: "(pyval \<Rightarrow> string) \<Rightarrow> pyval \<Rightarrow> exn + string list" where
  "md_bullets repr items = for_in items (\<lambda>item. Inr [''- '' @ py_str repr item])"

definition md_quotes :: "(pyval \<Rightarrow> string) \<Rightarrow> pyval \<Rightarrow> exn + string list" where
  "md_quotes repr quotes = for_in quotes (\<lambda>quote. Inr [''> '' @ py_str repr quote])"

definition md_summary :: "(pyval \<Rightarrow> string) \<Rightarrow> pydict \<Rightarrow> exn + string list" where
  "md_summary repr mm =
     (let summary = dict_get mm ''executive_summary'' (PDict [])
      in ebind (py_get summary ''top_pain_point'' (PStr ''N/A'')) (\<lambda>top_pain_point.
         ebind (py_get summary ''dominant_emotion'' (PStr ''N/A'')) (\<lambda>dominant_emotion.
         ebind (py_get summary ''primary_desire'' (PStr ''N/A'')) (\<lambda>primary_desire.
         ebind (py_get summary ''total_emotional_patterns'' (PInt 0)) (\<lambda>total.
           Inr [''## Executive Summary\<newline>'',
                ''- **Top Pain Point:** '' @ py_str repr top_pain_point,
                ''- **Dominant Emotion:** '' @ py_str repr dominant_emotion,
                ''- **Primary Desire:** '' @ py_str repr primary_desire,
                ''- **Total Patterns Identified:** '' @ py_str repr total,
                []])))))"

definition md_key_insights :: "(pyval \<Rightarrow> string) \<Rightarrow> pydict \<Rightarrow> exn + string list" where
  "md_key_insights repr mm =
     ebind (md_bullets repr (dict_get mm ''key_insights'' (PList []))) (\<lambda>entries.
       Inr ([''## Key Insights\<newline>''] @ entries @ [[]]))"

definition md_pain_point :: "(pyval \<Rightarrow> string) \<Rightarrow> int \<times> pyval \<Rightarrow> exn + string list" where
  "md_pain_point repr = (\<lambda>(i, pain).
     ebind (py_get pain ''pain_point'' (PStr ''N/A'')) (\<lambda>name.
     ebind (py_get pain ''severity'' (PStr ''N/A'')) (\<lambda>severity.
     ebind (py_get pain ''customer_quotes'' (PList [])) (\<lambda>quotes.
     ebind (md_quotes repr quotes) (\<lambda>quoted.
       Inr ([''### '' @ py_str repr (PInt i) @ ''. '' @ py_str repr name,
             ''**Severity:** '' @ py_str repr severity,
             ''\<newline>**Customer Quotes:**'']
            @ quoted @ [[]]))))))"

definition md_pain_points :: "(pyval \<Rightarrow> string) \<Rightarrow> pydict \<Rightarrow> exn + string list" where
  "md_pain_points repr mm =
     ebind (py_iter (dict_get mm ''pain_points'' (PList []))) (\<lambda>pains.
     ebind (for_each (md_pain_point repr) (enumerate1 pains)) (\<lambda>entries.
       Inr ([''## Pain Points\<newline>''] @ entries)))"

definition md_emotion :: "(pyval \<Rightarrow> string) \<Rightarrow> (string \<Rightarrow> string) \<Rightarrow> pyval \<Rightarrow> exn + string list" where
  "md_emotion repr title emotion =
     ebind (py_get emotion ''emotion'' (PStr ''N/A'')) (\<lambda>name.
     ebind (py_title title name) (\<lambda>heading.
     ebind (py_get emotion ''frequency'' (PStr ''N/A'')) (\<lambda>frequency.
     ebind (py_get emotion ''advertising_angle'' (PStr ''N/A'')) (\<lambda>angle.
     ebind (py_get emotion ''example_quotes'' (PList [])) (\<lambda>quotes.
     ebind (md_quotes repr quotes) (\<lambda>quoted.
       Inr ([''### '' @ heading,
             ''**Frequency:** '' @ py_str repr frequency,
             ''**Advertising Angle:** '' @ py_str repr angle,
             ''\<newline>**Example Quotes:**'']
            @ quoted @ [[]])))))))"

definition md_emotions :: "(pyval \<Rightarrow> string) \<Rightarrow> (string \<Rightarrow> string) \<Rightarrow> pydict \<Rightarrow> exn + string list" where
  "md_emotions repr title mm =
     ebind (for_in (dict_get mm ''emotional_intelligence'' (PList [])) (md_emotion repr title)) (\<lambda>entries.
       Inr ([''## Emotional Patterns\<newline>''] @ entries))"

definition stages :: "(string \<times> string) list" where
  "stages =
     [(''unaware'', ''Unaware''),
      (''problem_aware'', ''Problem Aware''),
      (''solution_aware'', ''Solution Aware''),
      (''product_aware'', ''Product Aware''),
      (''most_aware'', ''Most Aware'')]"

definition md_stage :: "(pyval \<Rightarrow> string) \<Rightarrow> pyval \<Rightarrow> string \<times> string \<Rightarrow> exn + string list" where
  "md_stage repr awareness = (\<lambda>(stage_key, stage_name).
     ebind (py_get awareness stage_key (PDict [])) (\<lambda>stage_data.
       if truthy stage_data then
         ebind (py_get stage_data ''indicators'' (PList [])) (\<lambda>indicators.
         ebind (md_bullets repr indicators) (\<lambda>phrases.
         ebind (py_get stage_data ''quotes'' (PList [])) (\<lambda>quotes.
         ebind (md_quotes repr quotes) (\<lambda>quoted.
           Inr ([''### '' @ stage_name, ''\<newline>**Key Phrases:**''] @ phrases
                @ [''\<newline>**Example Quotes:**''] @ quoted @ [[]])))))
       else Inr []))"

definition md_awareness :: "(pyval \<Rightarrow> string) \<Rightarrow> pydict \<Rightarrow> exn + string list" where
  "md_awareness repr mm =
     ebind (for_each (md_stage repr (dict_get mm ''awareness_stages'' (PDict []))) stages) (\<lambda>entries.
       Inr ([''## Customer Awareness Stages\<newline>''] @ entries))"

definition md_hook_group :: "(pyval \<Rightarrow> string) \<Rightarrow> (string \<Rightarrow> string) \<Rightarrow> pyval \<times> pyval \<Rightarrow> exn + string list" where
  "md_hook_group repr title = (\<lambda>(stage, hook_list).
     ebind (py_replace_underscores stage) (\<lambda>spaced.
     ebind (py_title title spaced) (\<lambda>heading.
     ebind (md_bullets repr hook_list) (\<lambda>hooks.
       Inr ([''### '' @ heading] @ hooks @ [[]])))))"

definition md_hooks :: "(pyval \<Rightarrow> string) \<Rightarrow> (string \<Rightarrow> string) \<Rightarrow> pydict \<Rightarrow> exn + string list" where
  "md_hooks repr title mm =
     ebind (py_items (dict_get mm ''ad_ready_hooks'' (PDict []))) (\<lambda>groups.
     ebind (for_each (md_hook_group repr title) groups) (\<lambda>entries.
       Inr ([''## Ad-Ready Hooks\<newline>''] @ entries)))"

definition md_framework :: "(pyval \<Rightarrow> string) \<Rightarrow> pyval \<Rightarrow> exn + string list" where
  "md_framework repr framework =
     ebind (py_get framework ''framework_name'' (PStr ''N/A'')) (\<lambda>name.
     ebind (py_get framework ''target_awareness'' (PStr ''N/A'')) (\<lambda>target.
     ebind (py_get framework ''example'' (PStr ''N/A'')) (\<lambda>example.
       Inr [''### '' @ py_str repr name,
            ''**Target Awareness:** '' @ py_str repr target,
            ''\<newline>**Example:**'',
            ''> '' @ py_str repr example,
            []])))"

definition md_frameworks :: "(pyval \<Rightarrow> string) \<Rightarrow> pydict \<Rightarrow> exn + string list" where
  "md_frameworks repr mm =
     ebind (for_in (dict_get mm ''body_copy_frameworks'' (PList [])) (md_framework repr)) (\<lambda>entries.
       Inr ([''## Body Copy Frameworks\<newline>''] @ entries))"

definition md_call_to_actions :: "(pyval \<Rightarrow> string) \<Rightarrow> pydict \<Rightarrow> exn + string list" where
  "md_call_to_actions repr mm =
     ebind (md_bullets repr (dict_get mm ''call_to_actions'' (PList []))) (\<lambda>entries.
       Inr ([''## Call to Action Suggestions\<newline>''] @ entries @ [[]]))"

definition md_objection :: "(pyval \<Rightarrow> string) \<Rightarrow> pyval \<Rightarrow> exn + string list" where
  "md_objection repr obj =
     ebind (py_get obj ''objection'' (PStr ''N/A'')) (\<lambda>objection.
     ebind (py_get obj ''response'' (PStr ''N/A'')) (\<lambda>response.
       Inr [''**Objection:** '' @ py_str repr objection,
            ''**Response:** '' @ py_str repr response,
            []]))"

definition md_objections :: "(pyval \<Rightarrow> string) \<Rightarrow> pydict \<Rightarrow> exn + string list" where
  "md_objections repr mm =
     ebind (for_in (dict_get mm ''objection_handlers'' (PList [])) (md_objection repr)) (\<lambda>entries.
       Inr ([''## Objection Handlers\<newline>''] @ entries))"

text \<open>The list \<open>md\<close> at the end of \<open>_generate_markdown\<close>, and the document returned.\<close>

definition markdown_entries :: "(pyval \<Rightarrow> string) \<Rightarrow> (string \<Rightarrow> string) \<Rightarrow> pydict \<Rightarrow> exn + string list" where
  "markdown_entries repr title mm =
     ebind (md_summary repr mm) (\<lambda>summary.
     ebind (md_key_insights repr mm) (\<lambda>insights.
     ebind (md_pain_points repr mm) (\<lambda>pains.
     ebind (md_emotions repr title mm) (\<lambda>emotions.
     ebind (md_awareness repr mm) (\<lambda>awareness.
     ebind (md_hooks repr title mm) (\<lambda>hooks.
     ebind (md_frameworks repr mm) (\<lambda>frameworks.
     ebind (md_call_to_actions repr mm) (\<lambda>ctas.
     ebind (md_objections repr mm) (\<lambda>objections.
       Inr (md_title repr mm @ summary @ insights @ pains @ emotions @ awareness
            @ hooks @ frameworks @ ctas @ objections))))))))))"

definition generate_markdown :: "(pyval \<Rightarrow> string) \<Rightarrow> (string \<Rightarrow> string) \<Rightarrow> pydict \<Rightarrow> exn + string" where
  "generate_markdown repr title mm = map_sum id (join ''\<newline>'') (markdown_entries repr title mm)"

subsection \<open>The styled-document encoding\<close>

text \<open>
  \<open>_generate_html\<close> builds one string from f-strings. A piece of it is either text of
  the template or a formatted value; the document is the concatenation of the pieces.
\<close>

datatype piece = Lit string | Val string

fun piece_text :: "piece \<Rightarrow> string" where
  "piece_text (Lit s) = s"
| "piece_text (Val s) = s"

text \<open>
  The template up to the first value: the lines of the document head with the style
  sheet, each with its newline, and the start of the line that shows the date.
\<close>

definition html_head_lines :: "string list" where
  \<open>html_head_lines =
     [''<!DOCTYPE html>\<newline>'',
      ''<html lang="en">\<newline>'',
      ''<head>\<newline>'',
      ''    <meta charset="UTF-8">\<newline>'',
      ''    <meta name="viewport" content="width=device-width, initial-scale=1.0">\<newline>'',
      ''    <title>Customer Language Message Map</title>\<newline>'',
      ''    <style>\<newline>'',
      ''        body {\<newline>'',
      ''            font-family: -apple-system, BlinkMacSystemFont, 'Segoe UI', Roboto, Oxygen, Ubuntu, Cantarell, sans-serif;\<newline>'',
      ''            line-height: 1.6;\<newline>'',
      ''            max-width: 1200px;\<newline>'',
      ''            margin: 0 auto;\<newline>'',
      ''            padding: 20px;\<newline>'',
      ''            background: #f5f5f5;\<newline>'',
      ''        }\<newline>'',
      ''        .container {\<newline>'',
      ''            background: white;\<newline>'',
      ''            padding: 30px;\<newline>'',
      ''            border-radius: 8px;\<newline>'',
      ''            box-shadow: 0 2px 4px rgba(0,0,0,0.1);\<newline>'',
      ''        }\<newline>'',
      ''        h1 { color: #2c3e50; border-bottom: 3px solid #3498db; padding-bottom: 10px; }\<newline>'',
      ''        h2 { color: #34495e; margin-top: 30px; border-left: 4px solid #3498db; padding-left: 10px; }\<newline>'',
      ''        h3 { color: #7f8c8d; }\<newline>'',
      ''        .summary {\<newline>'',
      ''            background: #ecf0f1;\<newline>'',
      ''            padding: 20px;\<newline>'',
      ''            border-radius: 5px;\<newline>'',
      ''            margin: 20px 0;\<newline>'',
      ''        }\<newline>'',
      ''        .quote {\<newline>'',
      ''            border-left: 4px solid #3498db;\<newline>'',
      ''            padding-left: 15px;\<newline>'',
      ''            margin: 10px 0;\<newline>'',
      ''            font-style: italic;\<newline>'',
      ''            color: #555;\<newline>'',
      ''        }\<newline>'',
      ''        .hook {\<newline>'',
      ''            background: #e8f8f5;\<newline>'',
      ''            padding: 10px 15px;\<newline>'',
      ''            margin: 10px 0;\<newline>'',
      ''            border-radius: 5px;\<newline>'',
      ''            border-left: 3px solid #27ae60;\<newline>'',
      ''        }\<newline>'',
      ''        .pain-point {\<newline>'',
      ''            background: #fdedec;\<newline>'',
      ''            padding: 15px;\<newline>'',
      ''            margin: 15px 0;\<newline>'',
      ''            border-radius: 5px;\<newline>'',
      ''            border-left: 3px solid #e74c3c;\<newline>'',
      ''        }\<newline>'',
      ''        .emotion {\<newline>'',
      ''            background: #fff9e6;\<newline>'',
      ''            padding: 15px;\<newline>'',
      ''            margin: 15px 0;\<newline>'',
      ''            border-radius: 5px;\<newline>'',
      ''            border-left: 3px solid #f39c12;\<newline>'',
      ''        }\<newline>'',
      ''        .framework {\<newline>'',
      ''            background: #f0f8ff;\<newline>'',
      ''            padding: 15px;\<newline>'',
      ''            margin: 15px 0;\<newline>'',
      ''            border-radius: 5px;\<newline>'',
      ''            border: 1px solid #3498db;\<newline>'',
      ''        }\<newline>'',
      ''        .badge {\<newline>'',
      ''            display: inline-block;\<newline>'',
      ''            padding: 3px 8px;\<newline>'',
      ''            border-radius: 3px;\<newline>'',
      ''            font-size: 12px;\<newline>'',
      ''            font-weight: bold;\<newline>'',
      ''            margin-right: 5px;\<newline>'',
      ''        }\<newline>'',
      ''        .badge-high { background: #e74c3c; color: white; }\<newline>'',
      ''        .badge-medium { background: #f39c12; color: white; }\<newline>'',
      ''        .badge-low { background: #27ae60; color: white; }\<newline>'',
      ''    </style>\<newline>'',
      ''</head>\<newline>'',
      ''<body>\<newline>'',
      ''    <div class="container">\<newline>'',
      ''        <h1>Customer Language Message Map</h1>\<newline>'']\<close>

definition html_document_head :: string where
  \<open>html_document_head = concat html_head_lines @ ''        <p><strong>Generated:</strong> ''\<close>

definition html_summary_open :: string where
  \<open>html_summary_open =
     ''</p>\<newline>'' @
     ''\<newline>'' @
     ''        <div class="summary">\<newline>'' @
     ''            <h2>Executive Summary</h2>\<newline>'' @
     ''            <p><strong>Top Pain Point:</strong> ''\<close>

definition html_key_insights_open :: string where
  \<open>html_key_insights_open =
     '' desire triggers</p>\<newline>'' @
     ''        </div>\<newline>'' @
     ''\<newline>'' @
     ''        <h2>Key Insights</h2>\<newline>'' @
     ''        <ul>\<newline>''\<close>

definition html_head :: "(pyval \<Rightarrow> string) \<Rightarrow> pydict \<Rightarrow> exn + piece list" where
  \<open>html_head repr mm =
     (let summary = dict_get mm ''executive_summary'' (PDict [])
      in ebind (py_get summary ''top_pain_point'' (PStr ''N/A'')) (\<lambda>top_pain_point.
         ebind (py_get summary ''dominant_emotion'' (PStr ''N/A'')) (\<lambda>dominant_emotion.
         ebind (py_get summary ''primary_desire'' (PStr ''N/A'')) (\<lambda>primary_desire.
         ebind (py_get summary ''total_emotional_patterns'' (PInt 0)) (\<lambda>emotional_patterns.
         ebind (py_get summary ''total_pain_points'' (PInt 0)) (\<lambda>pain_points.
         ebind (py_get summary ''total_desire_triggers'' (PInt 0)) (\<lambda>desire_triggers.
           Inr [Lit html_document_head,
                Val (py_str repr (dict_get mm ''generated_at'' (PStr ''N/A''))),
                Lit html_summary_open,
                Val (py_str repr top_pain_point),
                Lit (''</p>\<newline>'' @
                     ''            <p><strong>Dominant Emotion:</strong> ''),
                Val (py_str repr dominant_emotion),
                Lit (''</p>\<newline>'' @
                     ''            <p><strong>Primary Desire:</strong> ''),
                Val (py_str repr primary_desire),
                Lit (''</p>\<newline>'' @
                     ''            <p><strong>Patterns Identified:</strong> ''),
                Val (py_str repr emotional_patterns),
                Lit ('' emotional patterns,\<newline>'' @
                     ''               ''),
                Val (py_str repr pain_points),
                Lit ('' pain points,\<newline>'' @
                     ''               ''),
                Val (py_str repr desire_triggers),
                Lit html_key_insights_open])))))))\<close>

definition html_insight :: "(pyval \<Rightarrow> string) \<Rightarrow> pyval \<Rightarrow> exn + piece list" where
  \<open>html_insight repr insight =
     Inr [Lit ''            <li>'', Val (py_str repr insight), Lit ''</li>\<newline>'']\<close>

definition html_pain_points_open :: string where
  \<open>html_pain_points_open =
     ''        </ul>\<newline>'' @
     ''\<newline>'' @
     ''        <h2>Pain Points</h2>\<newline>''\<close>

definition html_quote :: "(pyval \<Rightarrow> string) \<Rightarrow> pyval \<Rightarrow> exn + piece list" where
  \<open>html_quote repr quote =
     Inr [Lit ''            <div class="quote">'', Val (py_str repr quote), Lit ''</div>\<newline>'']\<close>

definition html_pain_point :: "(pyval \<Rightarrow> string) \<Rightarrow> pyval \<Rightarrow> exn + piece list" where
  \<open>html_pain_point repr pain =
     ebind (py_get pain ''severity'' (PStr ''medium'')) (\<lambda>severity.
     ebind (py_get pain ''pain_point'' (PStr ''N/A'')) (\<lambda>name.
     ebind (py_get pain ''customer_quotes'' (PList [])) (\<lambda>quotes.
     ebind (for_in quotes (html_quote repr)) (\<lambda>quoted.
       Inr ([Lit (''        <div class="pain-point">\<newline>'' @
                   ''            <h3>''),
             Val (py_str repr name),
             Lit ('' <span class="badge badge-''),
             Val (py_str repr severity),
             Lit (''">''),
             Val (py_str repr severity),
             Lit (''</span></h3>\<newline>'' @
                   ''            <p><strong>Customer Quotes:</strong></p>\<newline>'')]
            @ quoted @ [Lit ''        </div>\<newline>''])))))\<close>

definition html_hooks_open :: string where
  \<open>html_hooks_open =
     ''\<newline>'' @
     ''        <h2>Ad-Ready Hooks</h2>\<newline>''\<close>

definition html_hook :: "(pyval \<Rightarrow> string) \<Rightarrow> pyval \<Rightarrow> exn + piece list" where
  \<open>html_hook repr hook =
     Inr [Lit ''        <div class="hook">'', Val (py_str repr hook), Lit ''</div>\<newline>'']\<close>

definition html_hook_group :: "(pyval \<Rightarrow> string) \<Rightarrow> (string \<Rightarrow> string) \<Rightarrow> pyval \<times> pyval \<Rightarrow> exn + piece list" where
  \<open>html_hook_group repr title = (\<lambda>(stage, hooks).
     ebind (py_replace_underscores stage) (\<lambda>spaced.
     ebind (py_title title spaced) (\<lambda>heading.
     ebind (for_in hooks (html_hook repr)) (\<lambda>hooked.
       Inr ([Lit ''        <h3>'', Val heading, Lit ''</h3>\<newline>''] @ hooked)))))\<close>

definition html_frameworks_open :: string where
  \<open>html_frameworks_open =
     ''\<newline>'' @
     ''        <h2>Body Copy Frameworks</h2>\<newline>''\<close>

definition html_framework :: "(pyval \<Rightarrow> string) \<Rightarrow> pyval \<Rightarrow> exn + piece list" where
  \<open>html_framework repr framework =
     ebind (py_get framework ''framework_name'' (PStr ''N/A'')) (\<lambda>name.
     ebind (py_get framework ''target_awareness'' (PStr ''N/A'')) (\<lambda>target.
     ebind (py_get framework ''example'' (PStr ''N/A'')) (\<lambda>example.
       Inr [Lit (''        <div class="framework">\<newline>'' @
                  ''            <h3>''),
            Val (py_str repr name),
            Lit (''</h3>\<newline>'' @
                  ''            <p><strong>Target Awareness:</strong> ''),
            Val (py_str repr target),
            Lit (''</p>\<newline>'' @
                  ''            <p><strong>Example:</strong></p>\<newline>'' @
                  ''            <div class="quote">''),
            Val (py_str repr example),
            Lit (''</div>\<newline>'' @
                  ''        </div>\<newline>'')])))\<close>

definition html_document_end :: string where
  \<open>html_document_end =
     ''    </div>\<newline>'' @
     ''</body>\<newline>'' @
     ''</html>''\<close>

text \<open>The pieces of the document in order, and the document returned.\<close>

definition html_pieces :: "(pyval \<Rightarrow> string) \<Rightarrow> (string \<Rightarrow> string) \<Rightarrow> pydict \<Rightarrow> exn + piece list" where
  \<open>html_pieces repr title mm =
     ebind (html_head repr mm) (\<lambda>head.
     ebind (for_in (dict_get mm ''key_insights'' (PList [])) (html_insight repr)) (\<lambda>insights.
     ebind (for_in (dict_get mm ''pain_points'' (PList [])) (html_pain_point repr)) (\<lambda>pains.
     ebind (py_items (dict_get mm ''ad_ready_hooks'' (PDict []))) (\<lambda>groups.
     ebind (for_each (html_hook_group repr title) groups) (\<lambda>hooks.
     ebind (for_in (dict_get mm ''body_copy_frameworks'' (PList [])) (html_framework repr)) (\<lambda>frameworks.
       Inr (head @ insights @ [Lit html_pain_points_open] @ pains @ [Lit html_hooks_open] @ hooks
            @ [Lit html_frameworks_open] @ frameworks @ [Lit html_document_end])))))))\<close>

definition generate_html :: "(pyval \<Rightarrow> string) \<Rightarrow> (string \<Rightarrow> string) \<Rightarrow> pydict \<Rightarrow> exn + string" where
  "generate_html repr title mm = map_sum id (\<lambda>ps. concat (map piece_text ps)) (html_pieces repr title mm)"

subsection \<open>Section headers\<close>

text \<open>
  In the prose encoding a section header is an entry of \<open>md\<close> that starts with \<open>##\<close> and
  a blank; its title is the rest of the line. In the styled encoding it is an \<open>h2\<close>
  element of the template; its title is the text up to the closing tag.
\<close>

definition is_md_section :: "string \<Rightarrow> bool" where
  "is_md_section entry = (take 3 entry = ''## '')"

definition md_section_headers :: "string list \<Rightarrow> string list" where
  "md_section_headers entries =
     map (\<lambda>entry. takeWhile (\<lambda>c. c \<noteq> CHR 0x0A) (drop 3 entry)) (filter is_md_section entries)"

fun h2_titles :: "string \<Rightarrow> string list" where
  "h2_titles [] = []"
| "h2_titles (c # cs) =
     (if take 4 (c # cs) = ''<h2>''
      then takeWhile (\<lambda>c. c \<noteq> CHR ''<'') (drop 3 cs) # h2_titles cs
      else h2_titles cs)"

fun piece_headers :: "piece \<Rightarrow> string list" where
  "piece_headers (Lit s) = h2_titles s"
| "piece_headers (Val s) = []"

definition html_section_headers :: "piece list \<Rightarrow> string list" where
  "html_section_headers pieces = concat (map piece_headers pieces)"

definition prose_sections :: "string list" where
  "prose_sections =
     [''Executive Summary'', ''Key Insights'', ''Pain Points'', ''Emotional Patterns'',
      ''Customer Awareness Stages'', ''Ad-Ready Hooks'', ''Body Copy Frameworks'',
      ''Call to Action Suggestions'', ''Objection Handlers'']"

definition styled_sections :: "string list" where
  "styled_sections =
     [''Executive Summary'', ''Key Insights'', ''Pain Points'', ''Ad-Ready Hooks'',
      ''Body Copy Frameworks'']"

subsection \<open>Two reports\<close>

text \<open>
  The message map that \<open>generate_message_map\<close> builds from an empty analysis and an
  empty ad framework, and one with an entry in every section that both encodings render.
\<close>

definition empty_report :: pydict where
  "empty_report =
     [(PStr ''generated_at'', PStr ''2024-01-22T10:00:00''),
      (PStr ''metadata'', PDict []),
      (PStr ''executive_summary'',
       PDict [(PStr ''top_pain_point'', PStr ''N/A''),
              (PStr ''dominant_emotion'', PStr ''N/A''),
              (PStr ''primary_desire'', PStr ''N/A''),
              (PStr ''total_emotional_patterns'', PInt 0),
              (PStr ''total_pain_points'', PInt 0),
              (PStr ''total_desire_triggers'', PInt 0)]),
      (PStr ''emotional_intelligence'', PList []),
      (PStr ''pain_points'', PList []),
      (PStr ''desire_triggers'', PList []),
      (PStr ''awareness_stages'', PDict []),
      (PStr ''language_patterns'', PDict []),
      (PStr ''ad_ready_hooks'', PDict []),
      (PStr ''body_copy_frameworks'', PList []),
      (PStr ''headline_formulas'', PList []),
      (PStr ''call_to_actions'', PList []),
      (PStr ''objection_handlers'', PList []),
      (PStr ''key_insights'', PList []),
      (PStr ''raw_data_summary'', PNone)]"

definition sample_report :: pydict where
  "sample_report =
     [(PStr ''generated_at'', PStr ''2024-01-22T10:00:00''),
      (PStr ''metadata'', PDict [(PStr ''query'', PStr ''running shoes'')]),
      (PStr ''executive_summary'',
       PDict [(PStr ''top_pain_point'', PStr ''No time''),
              (PStr ''dominant_emotion'', PStr ''Frustration''),
              (PStr ''primary_desire'', PStr ''N/A''),
              (PStr ''total_emotional_patterns'', PInt 1),
              (PStr ''total_pain_points'', PInt 1),
              (PStr ''total_desire_triggers'', PInt 0)]),
      (PStr ''emotional_intelligence'',
       PList [PDict [(PStr ''emotion'', PStr ''Frustration''), (PStr ''frequency'', PStr ''high''),
                     (PStr ''example_quotes'', PList [PStr ''I give up''])]]),
      (PStr ''pain_points'',
       PList [PDict [(PStr ''pain_point'', PStr ''No time''), (PStr ''severity'', PStr ''major''),
                     (PStr ''customer_quotes'', PList [PStr ''I never have time''])]]),
      (PStr ''desire_triggers'', PList []),
      (PStr ''awareness_stages'',
       PDict [(PStr ''problem_aware'',
               PDict [(PStr ''indicators'', PList [PStr ''my feet hurt'']),
                      (PStr ''quotes'', PList [PStr ''why do my feet hurt''])])]),
      (PStr ''language_patterns'', PDict []),
      (PStr ''ad_ready_hooks'',
       PDict [(PStr ''problem_aware'', PList [PStr ''Tired of sore feet?''])]),
      (PStr ''body_copy_frameworks'',
       PList [PDict [(PStr ''framework_name'', PStr ''Problem-Agitate-Solution''),
                     (PStr ''target_awareness'', PStr ''problem_aware''),
                     (PStr ''example'', PStr ''Your feet hurt. It gets worse. Try these.'')]]),
      (PStr ''headline_formulas'', PList []),
      (PStr ''call_to_actions'', PList [PStr ''Try them for 30 days'']),
      (PStr ''objection_handlers'',
       PList [PDict [(PStr ''objection'', PStr ''Too expensive''),
                     (PStr ''response'', PStr ''They last twice as long'')]]),
      (PStr ''key_insights'', PList [PStr ''Time is the enemy'']),
      (PStr ''raw_data_summary'', PNone)]"

text \<open>\<open>str.title\<close> on the two strings that rendering the second report passes to it.\<close>

definition sample_title :: "string \<Rightarrow> string" where
  "sample_title s = (if s = ''problem aware'' then ''Problem Aware'' else s)"

section \<open>Basic facts\<close>

lemma ebind_simps [simp]:
  "ebind (Inr x) f = f x"
  "ebind (Inl e) f = Inl e"
  by (simp_all add: ebind_def)

lemma first_text_Cons [simp]: "first_text (t # ts) = Inr t"
  by (simp add: first_text_def list_index_def)

lemma first_text_Nil [simp]: "first_text [] = Inl (Exn IndexError ''list index out of range'')"
  by (simp add: first_text_def list_index_def)

lemma except_exception_returns: "\<exists>v. except_exception body h = Inr v"
  by (cases body) (simp_all add: except_exception_def)

lemma ebind_eq_Inr: "ebind m f = Inr y \<Longrightarrow> \<exists>x. m = Inr x \<and> f x = Inr y"
  by (cases m) simp_all

section \<open>Properties of the analysis orchestrator\<close>

subsection \<open>The prompt of the pattern-extraction pass\<close>

lemma length_join:
  "length (join sep xs) = sum_list (map length xs) + (length xs - 1) * length sep"
  by (induction sep xs rule: join.induct) auto

text \<open>
  Claim C8. Given more than 100 text units, \<open>_build_analysis_prompt\<close> joins exactly the
  first 100, in their order, with the separator and sets the result between the fixed
  parts of the template: 100 units and 99 separators make up the embedded text, and the
  prompt is the one built from the first 100 units alone, so the units after them have
  no influence on it.
\<close>

theorem prompt_uses_first_100_units:
  assumes "length texts > 100"
  shows "build_analysis_prompt texts context =
           analysis_prompt_intro
           @ (if context \<noteq> [] then ''PRODUCT/CATEGORY CONTEXT: '' @ context else [])
           @ analysis_prompt_samples
           @ join text_separator (take 100 texts)
           @ analysis_prompt_schema
       \<and> length (take 100 texts) = 100
       \<and> (\<forall>i<100. take 100 texts ! i = texts ! i)
       \<and> length (combined_texts texts)
           = sum_list (map length (take 100 texts)) + 99 * length text_separator
       \<and> build_analysis_prompt (take 100 texts) context = build_analysis_prompt texts context"
proof -
  have len: "length (take 100 texts) = 100" using assms by simp
  have "length (combined_texts texts)
          = sum_list (map length (take 100 texts)) + 99 * length text_separator"
    unfolding combined_texts_def length_join len by simp
  moreover have "combined_texts (take 100 texts) = combined_texts texts"
    by (simp add: combined_texts_def)
  ultimately show ?thesis
    using len by (simp add: build_analysis_prompt_def combined_texts_def)
qed

theorem prompt_uses_first_100_units_witness:
  "length (replicate 101 ''x'') > 100 \<and>
   length (combined_texts (replicate 101 ''x'')) = 100 + 99 * 7 \<and>
   build_analysis_prompt (replicate 100 ''x'') ''shoes''
     = build_analysis_prompt (replicate 101 ''x'') ''shoes''"
proof -
  have h: "length (replicate 101 ''x'') > 100" by simp
  have s: "sum_list (map length (take 100 (replicate 101 ''x''))) = 100"
    by (simp add: sum_list_replicate)
  show ?thesis
    using h prompt_uses_first_100_units [OF h, of "''shoes''"] s
    by (simp add: text_separator_def)
qed

subsection \<open>The three outcomes of an LLM pass\<close>

text \<open>
  Claim C1, as the code has it. \<open>analyze_batch\<close> wraps the response text only when
  \<open>json.loads\<close> raises \<open>JSONDecodeError\<close>: the result is then the single-key dictionary
  \<open>{raw_analysis: text}\<close> with the complete text. A response that is valid JSON is
  returned as parsed, whatever its shape, since the pass checks no schema. In every
  case \<open>analyze_batch\<close> returns a value and raises nothing.
\<close>

theorem analyze_batch_wraps_undecodable_text:
  fixes create :: "'s llm"
  shows "(create s \<lparr>model = mdl, max_tokens = max_tok, temperature = 3 / 10,
                    content = build_analysis_prompt texts ctx\<rparr>
            = (Inr (response_text # blocks), after) \<longrightarrow>
            (loads response_text = Inl (Exn JSONDecodeError msg) \<longrightarrow>
               analyze_batch create loads mdl s texts ctx max_tok
                 = (Inr (PDict [(PStr ''raw_analysis'', PStr response_text)]), after))
          \<and> (loads response_text = Inr parsed \<longrightarrow>
               analyze_batch create loads mdl s texts ctx max_tok = (Inr parsed, after)))
       \<and> (\<exists>v. fst (analyze_batch create loads mdl s texts ctx max_tok) = Inr v)"
proof -
  have "\<exists>v. fst (analyze_batch create loads mdl s texts ctx max_tok) = Inr v"
    by (cases "create s \<lparr>model = mdl, max_tokens = max_tok, temperature = 3 / 10,
                    content = build_analysis_prompt texts ctx\<rparr>")
       (simp add: analyze_batch_def except_exception_returns)
  then show ?thesis
    by (simp add: analyze_batch_def except_decode_error_def except_exception_def)
qed

text \<open>
  The response \<open>{"summary": "fine"}\<close> is valid JSON of the wrong shape; the pass returns
  the parsed dictionary, not the wrapper around the text.
\<close>

theorem analyze_batch_valid_json_counterexample:
  \<open>analyze_batch (\<lambda>s req. (Inr [''{"summary": "fine"}''], Suc s))
       (\<lambda>t. if t = ''{"summary": "fine"}'' then Inr (PDict [(PStr ''summary'', PStr ''fine'')])
            else Inl (Exn JSONDecodeError ''Expecting value''))
       ''claude'' (0::nat) [''too expensive''] [] 4000
     = (Inr (PDict [(PStr ''summary'', PStr ''fine'')]), 1)
   \<and> fst (analyze_batch (\<lambda>s req. (Inr [''{"summary": "fine"}''], Suc s))
       (\<lambda>t. if t = ''{"summary": "fine"}'' then Inr (PDict [(PStr ''summary'', PStr ''fine'')])
            else Inl (Exn JSONDecodeError ''Expecting value''))
       ''claude'' (0::nat) [''too expensive''] [] 4000)
     \<noteq> Inr (PDict [(PStr ''raw_analysis'', PStr ''{"summary": "fine"}'')])\<close>
  by (simp add: analyze_batch_def except_decode_error_def except_exception_def)

text \<open>
  The example of the specification, the response \<open>not json\<close>, and a response that parses.
\<close>

theorem analyze_batch_wraps_undecodable_text_witness:
  \<open>analyze_batch (\<lambda>s req. (Inr [''not json''], Suc s))
       (\<lambda>t. Inl (Exn JSONDecodeError ''Expecting value''))
       ''claude'' (0::nat) [''too expensive''] [] 4000
     = (Inr (PDict [(PStr ''raw_analysis'', PStr ''not json'')]), 1)
   \<and> analyze_batch (\<lambda>s req. (Inr [''{"key_insights": []}''], Suc s))
       (\<lambda>t. Inr (PDict [(PStr ''key_insights'', PList [])]))
       ''claude'' (0::nat) [''too expensive''] [] 4000
     = (Inr (PDict [(PStr ''key_insights'', PList [])]), 1)\<close>
  using
    analyze_batch_wraps_undecodable_text
      [where create = "\<lambda>s req. (Inr [''not json''], Suc s)" and s = 0 and mdl = "''claude''"
         and texts = "[''too expensive'']" and ctx = "[]" and max_tok = 4000
         and response_text = "''not json''" and blocks = "[]" and after = 1
         and loads = "\<lambda>t. Inl (Exn JSONDecodeError ''Expecting value'')" and msg = "''Expecting value''"]
    analyze_batch_wraps_undecodable_text
      [where create = \<open>\<lambda>s req. (Inr [''{"key_insights": []}''], Suc s)\<close> and s = 0 and mdl = "''claude''"
         and texts = "[''too expensive'']" and ctx = "[]" and max_tok = 4000
         and response_text = \<open>''{"key_insights": []}''\<close> and blocks = "[]" and after = 1
         and loads = "\<lambda>t. Inr (PDict [(PStr ''key_insights'', PList [])])"
         and parsed = "PDict [(PStr ''key_insights'', PList [])]"]
  by simp

text \<open>
  Claim C9. When the call to the LLM raises, in \<open>analyze_batch\<close> and in
  \<open>generate_ad_copy_framework\<close> alike, the pass returns \<open>{error: str(e)}\<close> and raises
  nothing; the world is left in the state that this one call produced, so the call was
  made once and not repeated.
\<close>

theorem llm_failure_gives_error_variant:
  fixes create :: "'s llm"
  shows "(fst (create s \<lparr>model = mdl, max_tokens = max_tok, temperature = 3 / 10,
                        content = build_analysis_prompt texts ctx\<rparr>) = Inl e \<longrightarrow>
            analyze_batch create loads mdl s texts ctx max_tok
              = (Inr (PDict [(PStr ''error'', PStr (exn_str e))]),
                 snd (create s \<lparr>model = mdl, max_tokens = max_tok, temperature = 3 / 10,
                                content = build_analysis_prompt texts ctx\<rparr>)))
       \<and> (fst (create s \<lparr>model = mdl, max_tokens = max_tok, temperature = 4 / 10,
                        content = framework_prompt_intro @ dumps analysis @ framework_prompt_schema\<rparr>) = Inl e \<longrightarrow>
            generate_ad_copy_framework create loads dumps mdl s analysis max_tok
              = (Inr (PDict [(PStr ''error'', PStr (exn_str e))]),
                 snd (create s \<lparr>model = mdl, max_tokens = max_tok, temperature = 4 / 10,
                                content = framework_prompt_intro @ dumps analysis @ framework_prompt_schema\<rparr>)))"
  by (simp add: analyze_batch_def generate_ad_copy_framework_def except_exception_def split: prod.splits)

text \<open>
  A world that answers from a script, one entry per call: the first call fails, a second
  call would have succeeded, and its entry is still in the script afterwards.
\<close>

theorem llm_failure_gives_error_variant_witness:
  \<open>analyze_batch
       (\<lambda>script req. case script of [] \<Rightarrow> (Inl (Exn APIError ''connection closed''), []) | r # rs \<Rightarrow> (r, rs))
       (\<lambda>t. Inr (PDict []))
       ''claude'' [Inl (Exn APIError ''rate limit exceeded''), Inr [''{}'']] [''too expensive''] [] 4000
     = (Inr (PDict [(PStr ''error'', PStr ''rate limit exceeded'')]), [Inr [''{}'']])
   \<and> generate_ad_copy_framework
       (\<lambda>script req. case script of [] \<Rightarrow> (Inl (Exn APIError ''connection closed''), []) | r # rs \<Rightarrow> (r, rs))
       (\<lambda>t. Inr (PDict [])) (\<lambda>v. ''{}'')
       ''claude'' [Inl (Exn APIError ''request timed out''), Inr [''{}'']] (PDict []) 3000
     = (Inr (PDict [(PStr ''error'', PStr ''request timed out'')]), [Inr [''{}'']])\<close>
  using llm_failure_gives_error_variant
    [where create = "\<lambda>script req. case script of [] \<Rightarrow> (Inl (Exn APIError ''connection closed''), []) | r # rs \<Rightarrow> (r, rs)"
       and s = "[Inl (Exn APIError ''rate limit exceeded''), Inr [''{}'']]" and mdl = "''claude''"
       and max_tok = 4000 and texts = "[''too expensive'']" and ctx = "[]"
       and e = "Exn APIError ''rate limit exceeded''" and loads = "\<lambda>t. Inr (PDict [])"]
    llm_failure_gives_error_variant
    [where create = "\<lambda>script req. case script of [] \<Rightarrow> (Inl (Exn APIError ''connection closed''), []) | r # rs \<Rightarrow> (r, rs)"
       and s = "[Inl (Exn APIError ''request timed out''), Inr [''{}'']]" and mdl = "''claude''"
       and max_tok = 3000 and e = "Exn APIError ''request timed out''"
       and dumps = "\<lambda>v. ''{}''" and analysis = "PDict []" and loads = "\<lambda>t. Inr (PDict [])"]
  by simp

subsection \<open>The awareness-categorization pass\<close>

lemma sampled_texts_empty:
  "(\<forall>item \<in> set data. \<not> has_key item text_field) \<Longrightarrow> sampled_texts data text_field = []"
  by (induction data) (auto simp: sampled_texts_def has_key_def)

lemma categorize_unfold:
  assumes "create s (awareness_request dumps mdl (sampled_texts data text_field)) = (reply, after)"
  shows "fst (categorize_by_awareness create loads dumps mdl s data text_field) =
     (if sampled_texts data text_field = [] then Inr []
      else except_exception
             (ebind reply (\<lambda>message.
              ebind (first_text message) (\<lambda>response_text.
              ebind (loads response_text) (\<lambda>result.
              ebind (py_get result ''categorized'' (PList [])) (\<lambda>assignments.
              ebind (py_iter assignments) (\<lambda>items.
                efold (bucket_step data) items empty_buckets))))))
             (\<lambda>e. []))"
  using assms by (simp add: categorize_by_awareness_def Let_def)

text \<open>
  Claim C10. \<open>categorize_by_awareness\<close> returns the empty dictionary, which has none of
  the five stage keys, when no item of the input has the text field (no call is made
  then), when the call to the LLM raises, and when \<open>json.loads\<close> raises on the response.
\<close>

theorem categorize_returns_empty_dict:
  fixes create :: "'s llm"
  shows "((\<forall>item \<in> set data. \<not> has_key item text_field) \<longrightarrow>
            categorize_by_awareness create loads dumps mdl s data text_field = (Inr [], s))
       \<and> (fst (create s (awareness_request dumps mdl (sampled_texts data text_field))) = Inl e \<longrightarrow>
            fst (categorize_by_awareness create loads dumps mdl s data text_field) = Inr [])
       \<and> (fst (create s (awareness_request dumps mdl (sampled_texts data text_field)))
              = Inr (response_text # blocks) \<and> loads response_text = Inl e \<longrightarrow>
            fst (categorize_by_awareness create loads dumps mdl s data text_field) = Inr [])
       \<and> (\<forall>stage \<in> set (map fst empty_buckets). map_of ([] :: buckets) stage = None)"
proof -
  obtain reply after
    where c: "create s (awareness_request dumps mdl (sampled_texts data text_field)) = (reply, after)"
    by (cases "create s (awareness_request dumps mdl (sampled_texts data text_field))")
  have "(\<forall>item \<in> set data. \<not> has_key item text_field) \<longrightarrow>
            categorize_by_awareness create loads dumps mdl s data text_field = (Inr [], s)"
    by (simp add: sampled_texts_empty categorize_by_awareness_def)
  moreover have "reply = Inl e \<longrightarrow>
            fst (categorize_by_awareness create loads dumps mdl s data text_field) = Inr []"
    using categorize_unfold [of create s dumps mdl data text_field reply after loads, OF c]
    by (simp add: except_exception_def)
  moreover have "reply = Inr (response_text # blocks) \<and> loads response_text = Inl e \<longrightarrow>
            fst (categorize_by_awareness create loads dumps mdl s data text_field) = Inr []"
    using categorize_unfold [of create s dumps mdl data text_field reply after loads, OF c]
    by (simp add: except_exception_def)
  ultimately show ?thesis using c by simp
qed

theorem categorize_returns_empty_dict_witness:
  \<open>categorize_by_awareness (\<lambda>s req. (Inr [''{}''], Suc s)) (\<lambda>t. Inr (PDict [])) (\<lambda>v. ''[]'') ''claude'' (0::nat)
       [[(PStr ''title'', PStr ''Great shoes'')]] ''text'' = (Inr [], 0)
   \<and> fst (categorize_by_awareness (\<lambda>s req. (Inl (Exn APIError ''overloaded''), Suc s)) (\<lambda>t. Inr (PDict []))
       (\<lambda>v. ''[]'') ''claude'' (0::nat) [[(PStr ''text'', PStr ''too tight'')]] ''text'') = Inr []
   \<and> fst (categorize_by_awareness (\<lambda>s req. (Inr [''Sure! Here you go''], Suc s))
       (\<lambda>t. Inl (Exn JSONDecodeError ''Expecting value''))
       (\<lambda>v. ''[]'') ''claude'' (0::nat) [[(PStr ''text'', PStr ''too tight'')]] ''text'') = Inr []\<close>
  using
    categorize_returns_empty_dict
      [where create = "\<lambda>s req. (Inr [''{}''], Suc s)" and loads = "\<lambda>t. Inr (PDict [])"
         and dumps = "\<lambda>v. ''[]''" and mdl = "''claude''" and s = "0::nat"
         and data = "[[(PStr ''title'', PStr ''Great shoes'')]]" and text_field = "''text''"]
    categorize_returns_empty_dict
      [where create = "\<lambda>s req. (Inl (Exn APIError ''overloaded''), Suc s)" and loads = "\<lambda>t. Inr (PDict [])"
         and dumps = "\<lambda>v. ''[]''" and mdl = "''claude''" and s = "0::nat"
         and data = "[[(PStr ''text'', PStr ''too tight'')]]" and text_field = "''text''"
         and e = "Exn APIError ''overloaded''"]
    categorize_returns_empty_dict
      [where create = "\<lambda>s req. (Inr [''Sure! Here you go''], Suc s)"
         and loads = "\<lambda>t. Inl (Exn JSONDecodeError ''Expecting value'')"
         and dumps = "\<lambda>v. ''[]''" and mdl = "''claude''" and s = "0::nat"
         and data = "[[(PStr ''text'', PStr ''too tight'')]]" and text_field = "''text''"
         and e = "Exn JSONDecodeError ''Expecting value''" and response_text = "''Sure! Here you go''"
         and blocks = "[]"]
  by (simp add: has_key_def lookup_def)

text \<open>
  What the loop does with one well-formed assignment: the index is compared with
  \<open>len(data)\<close> only from above.
\<close>

lemma bucket_step_assignment:
  "bucket_step data (PDict [(PStr ''text_index'', idx), (PStr ''stage'', stage)]) cat =
     ebind (idx_lt_len idx data) (\<lambda>below.
       if below then
         ebind (stage_in stage cat) (\<lambda>known.
           if known then
             ebind (data_at data idx) (\<lambda>x. Inr (bucket_append cat (stage_name stage) x))
           else Inr cat)
       else Inr cat)"
  by (simp add: bucket_step_def lookup_def)

lemma index_beyond_data_is_dropped:
  "int (length data) \<le> i \<Longrightarrow>
   bucket_step data (PDict [(PStr ''text_index'', PInt i), (PStr ''stage'', stage)]) cat = Inr cat"
  by (simp add: bucket_step_assignment idx_lt_len_def)

lemma unknown_stage_is_dropped:
  "st \<notin> set (map fst cat) \<Longrightarrow>
   bucket_step data (PDict [(PStr ''text_index'', PInt i), (PStr ''stage'', PStr st)]) cat = Inr cat"
  by (simp add: bucket_step_assignment idx_lt_len_def)

text \<open>
  Claim C3. The guard \<open>idx < len(data)\<close> has no lower bound: with five items sent, the
  assignment \<open>text_index: -1\<close> is not dropped; \<open>data[-1]\<close>, the last item, is put into the
  bucket.
\<close>

theorem negative_text_index_is_bucketed:
  \<open>fst (categorize_by_awareness (\<lambda>s req. (Inr [''reply''], Suc s))
          (\<lambda>t. Inr (PDict [(PStr ''categorized'',
             PList [PDict [(PStr ''text_index'', PInt (- 1)), (PStr ''stage'', PStr ''unaware'')]])]))
          (\<lambda>v. ''[]'') ''claude'' (0::nat)
          [[(PStr ''text'', PStr ''t0'')], [(PStr ''text'', PStr ''t1'')], [(PStr ''text'', PStr ''t2'')],
           [(PStr ''text'', PStr ''t3'')], [(PStr ''text'', PStr ''t4'')]] ''text'')
     = Inr [(''unaware'', [[(PStr ''text'', PStr ''t4'')]]), (''problem_aware'', []),
            (''solution_aware'', []), (''product_aware'', []), (''most_aware'', [])]\<close>
  by (simp add: categorize_by_awareness_def sampled_texts_def lookup_def
      except_exception_def bucket_step_assignment idx_lt_len_def data_at_def list_index_def
      empty_buckets_def bucket_append_def dict_get_def)


text \<open>
  An index below \<open>-len(data)\<close> passes the guard as well; \<open>data[idx]\<close> then raises
  \<open>IndexError\<close>, and the handler discards every assignment made so far.
\<close>

lemma text_index_below_range_loses_result:
  \<open>fst (categorize_by_awareness (\<lambda>s req. (Inr [''reply''], Suc s))
          (\<lambda>t. Inr (PDict [(PStr ''categorized'',
             PList [PDict [(PStr ''text_index'', PInt 0), (PStr ''stage'', PStr ''unaware'')],
                    PDict [(PStr ''text_index'', PInt (- 6)), (PStr ''stage'', PStr ''unaware'')]])]))
          (\<lambda>v. ''[]'') ''claude'' (0::nat)
          [[(PStr ''text'', PStr ''t0'')], [(PStr ''text'', PStr ''t1'')], [(PStr ''text'', PStr ''t2'')],
           [(PStr ''text'', PStr ''t3'')], [(PStr ''text'', PStr ''t4'')]] ''text'')
     = Inr []\<close>
  by (simp add: categorize_by_awareness_def sampled_texts_def lookup_def
      except_exception_def bucket_step_assignment idx_lt_len_def data_at_def list_index_def
      empty_buckets_def bucket_append_def dict_get_def)

text \<open>
  The index is checked against \<open>data\<close>, not against the texts that were sent: of eight
  items only the last five have the text field, so five texts are sent, and the
  assignment \<open>text_index: 7\<close> puts \<open>data[7]\<close> into the bucket.
\<close>

lemma text_index_past_sent_texts_is_bucketed:
  \<open>sampled_texts
       [[(PStr ''title'', PStr ''a'')], [(PStr ''title'', PStr ''b'')], [(PStr ''title'', PStr ''c'')],
        [(PStr ''text'', PStr ''t0'')], [(PStr ''text'', PStr ''t1'')], [(PStr ''text'', PStr ''t2'')],
        [(PStr ''text'', PStr ''t3'')], [(PStr ''text'', PStr ''t4'')]] ''text''
     = [PStr ''t0'', PStr ''t1'', PStr ''t2'', PStr ''t3'', PStr ''t4'']
   \<and> fst (categorize_by_awareness (\<lambda>s req. (Inr [''reply''], Suc s))
          (\<lambda>t. Inr (PDict [(PStr ''categorized'',
             PList [PDict [(PStr ''text_index'', PInt 7), (PStr ''stage'', PStr ''most_aware'')]])]))
          (\<lambda>v. ''[]'') ''claude'' (0::nat)
          [[(PStr ''title'', PStr ''a'')], [(PStr ''title'', PStr ''b'')], [(PStr ''title'', PStr ''c'')],
           [(PStr ''text'', PStr ''t0'')], [(PStr ''text'', PStr ''t1'')], [(PStr ''text'', PStr ''t2'')],
           [(PStr ''text'', PStr ''t3'')], [(PStr ''text'', PStr ''t4'')]] ''text'')
     = Inr [(''unaware'', []), (''problem_aware'', []), (''solution_aware'', []),
            (''product_aware'', []), (''most_aware'', [[(PStr ''text'', PStr ''t4'')]])]\<close>
  by (simp add: categorize_by_awareness_def sampled_texts_def lookup_def
      except_exception_def bucket_step_assignment idx_lt_len_def data_at_def list_index_def
      empty_buckets_def bucket_append_def dict_get_def)

section \<open>Properties of the corpus builder\<close>












text \<open>
  The inner loops test only that the key is there, unlike the tests for body and
  title: the empty text of a comment is emitted. A \<open>comments\<close> value that cannot be
  iterated ends the loop with \<open>TypeError\<close>.
\<close>

lemma empty_comment_text_is_emitted:
  \<open>extract_texts [[(PStr ''text'', PStr ''post''), (PStr ''comments'', PList [PDict [(PStr ''text'', PStr [])]])]]
     = Inr [PStr ''post'', PStr []]\<close>
  by (simp add: extract_texts_def extract_item_def append_own_text_def append_nested_texts_def
      append_nested_text_def has_key_def dict_get_def lookup_def)

lemma comments_not_iterable_raises:
  \<open>extract_texts [[(PStr ''text'', PStr ''post''), (PStr ''comments'', PNone)]]
     = Inl (Exn TypeError ''object is not iterable'')\<close>
  by (simp add: extract_texts_def extract_item_def append_own_text_def append_nested_texts_def
      append_nested_text_def has_key_def dict_get_def lookup_def)

section \<open>Properties of the report assembler\<close>

subsection \<open>The executive summary\<close>

lemma first_field_of_list:
  "first_field (PList xs) key =
     (case xs of
        [] \<Rightarrow> Inr (PStr ''N/A'')
      | x # rest \<Rightarrow> py_getitem_str x key)"
  by (cases xs) (simp_all add: first_field_def list_index_def)

text \<open>
  Claim C6. Where the three sequences of the analysis are lists and the first pain
  point, emotional pattern and desire trigger (if any) carry the fields \<open>pain_point\<close>,
  \<open>emotion\<close> and \<open>desire\<close>, the summary holds these three values, each replaced by
  \<open>N/A\<close> when its list is empty, and the three counts are the lengths of the lists.
\<close>

theorem summary_takes_first_elements:
  assumes "dict_get analysis ''pain_points'' (PList []) = PList ps"
    and "dict_get analysis ''emotional_patterns'' (PList []) = PList es"
    and "dict_get analysis ''desire_triggers'' (PList []) = PList ds"
    and "ps = [] \<or> (\<exists>d. hd ps = PDict d \<and> lookup d ''pain_point'' = Some p)"
    and "es = [] \<or> (\<exists>d. hd es = PDict d \<and> lookup d ''emotion'' = Some e)"
    and "ds = [] \<or> (\<exists>d. hd ds = PDict d \<and> lookup d ''desire'' = Some w)"
  shows "generate_summary analysis =
     Inr [(PStr ''top_pain_point'', if ps = [] then PStr ''N/A'' else p),
          (PStr ''dominant_emotion'', if es = [] then PStr ''N/A'' else e),
          (PStr ''primary_desire'', if ds = [] then PStr ''N/A'' else w),
          (PStr ''total_emotional_patterns'', PInt (int (length es))),
          (PStr ''total_pain_points'', PInt (int (length ps))),
          (PStr ''total_desire_triggers'', PInt (int (length ds)))]"
proof -
  have "first_field (PList ps) ''pain_point'' = Inr (if ps = [] then PStr ''N/A'' else p)"
    using assms(4) by (cases ps) (auto simp: first_field_of_list)
  moreover have "first_field (PList es) ''emotion'' = Inr (if es = [] then PStr ''N/A'' else e)"
    using assms(5) by (cases es) (auto simp: first_field_of_list)
  moreover have "first_field (PList ds) ''desire'' = Inr (if ds = [] then PStr ''N/A'' else w)"
    using assms(6) by (cases ds) (auto simp: first_field_of_list)
  ultimately show ?thesis
    using assms(1-3) by (simp add: generate_summary_def)
qed

text \<open>The example of the specification: pain points A and B, no emotion, desire X.\<close>

theorem summary_takes_first_elements_witness:
  \<open>generate_summary
     [(PStr ''pain_points'', PList [PDict [(PStr ''pain_point'', PStr ''A'')],
                                    PDict [(PStr ''pain_point'', PStr ''B'')]]),
      (PStr ''emotional_patterns'', PList []),
      (PStr ''desire_triggers'', PList [PDict [(PStr ''desire'', PStr ''X'')]])]
   = Inr [(PStr ''top_pain_point'', PStr ''A''),
          (PStr ''dominant_emotion'', PStr ''N/A''),
          (PStr ''primary_desire'', PStr ''X''),
          (PStr ''total_emotional_patterns'', PInt 0),
          (PStr ''total_pain_points'', PInt 2),
          (PStr ''total_desire_triggers'', PInt 1)]\<close>
  using summary_takes_first_elements
    [where analysis = "[(PStr ''pain_points'', PList [PDict [(PStr ''pain_point'', PStr ''A'')],
                                    PDict [(PStr ''pain_point'', PStr ''B'')]]),
      (PStr ''emotional_patterns'', PList []),
      (PStr ''desire_triggers'', PList [PDict [(PStr ''desire'', PStr ''X'')]])]"
      and ps = "[PDict [(PStr ''pain_point'', PStr ''A'')], PDict [(PStr ''pain_point'', PStr ''B'')]]"
      and es = "[]" and ds = "[PDict [(PStr ''desire'', PStr ''X'')]]"
      and p = "PStr ''A''" and w = "PStr ''X''"]
  by (simp add: dict_get_def lookup_def)

subsection \<open>The merge\<close>

text \<open>
  With a summary at hand and no raw data, the merge copies every field of the analysis
  and of the ad framework, and a key that is missing at the top level of either gives
  the empty list or the empty dictionary.
\<close>

lemma merge_copies_fields:
  assumes "generate_summary analysis = Inr summary"
  shows "generate_message_map now analysis ad_framework None metadata =
     Inr [(PStr ''generated_at'', PStr now),
          (PStr ''metadata'', PDict (case metadata of None \<Rightarrow> [] | Some m \<Rightarrow> m)),
          (PStr ''executive_summary'', PDict summary),
          (PStr ''emotional_intelligence'', dict_get analysis ''emotional_patterns'' (PList [])),
          (PStr ''pain_points'', dict_get analysis ''pain_points'' (PList [])),
          (PStr ''desire_triggers'', dict_get analysis ''desire_triggers'' (PList [])),
          (PStr ''awareness_stages'', dict_get analysis ''awareness_stages'' (PDict [])),
          (PStr ''language_patterns'', dict_get analysis ''language_patterns'' (PDict [])),
          (PStr ''ad_ready_hooks'', dict_get ad_framework ''hooks'' (PDict [])),
          (PStr ''body_copy_frameworks'', dict_get ad_framework ''body_copy_frameworks'' (PList [])),
          (PStr ''headline_formulas'', dict_get ad_framework ''headline_formulas'' (PList [])),
          (PStr ''call_to_actions'', dict_get ad_framework ''call_to_action_suggestions'' (PList [])),
          (PStr ''objection_handlers'', dict_get ad_framework ''objection_handlers'' (PList [])),
          (PStr ''key_insights'', dict_get analysis ''key_insights'' (PList [])),
          (PStr ''raw_data_summary'', PNone)]"
  using assms by (simp add: generate_message_map_def)

lemma merge_of_empty_inputs:
  "generate_message_map now [] [] None None =
     Inr [(PStr ''generated_at'', PStr now),
          (PStr ''metadata'', PDict []),
          (PStr ''executive_summary'',
           PDict [(PStr ''top_pain_point'', PStr ''N/A''),
                  (PStr ''dominant_emotion'', PStr ''N/A''),
                  (PStr ''primary_desire'', PStr ''N/A''),
                  (PStr ''total_emotional_patterns'', PInt 0),
                  (PStr ''total_pain_points'', PInt 0),
                  (PStr ''total_desire_triggers'', PInt 0)]),
          (PStr ''emotional_intelligence'', PList []),
          (PStr ''pain_points'', PList []),
          (PStr ''desire_triggers'', PList []),
          (PStr ''awareness_stages'', PDict []),
          (PStr ''language_patterns'', PDict []),
          (PStr ''ad_ready_hooks'', PDict []),
          (PStr ''body_copy_frameworks'', PList []),
          (PStr ''headline_formulas'', PList []),
          (PStr ''call_to_actions'', PList []),
          (PStr ''objection_handlers'', PList []),
          (PStr ''key_insights'', PList []),
          (PStr ''raw_data_summary'', PNone)]"
  by (simp add: generate_message_map_def generate_summary_def dict_get_def lookup_def first_field_def)

text \<open>
  Claim C4. The summary reads \<open>pain_points[0]["pain_point"]\<close> by subscript: a first pain
  point without that key makes \<open>generate_message_map\<close> raise \<open>KeyError\<close>, where the
  renderers of the same class read the field with \<open>.get('pain_point', 'N/A')\<close>.
\<close>

theorem merge_raises_on_missing_nested_key:
  \<open>generate_message_map now
     [(PStr ''pain_points'', PList [PDict [(PStr ''severity'', PStr ''major'')]])] [] None None
   = Inl (Exn KeyError (CHR 0x27 # ''pain_point'' @ [CHR 0x27]))\<close>
  by (simp add: generate_message_map_def generate_summary_def dict_get_def lookup_def first_field_def
      list_index_def)

subsection \<open>The date range of the raw-data summary\<close>

lemma fold_collect_date:
  "fold collect_date raw_data dates = dates @ filter truthy (map date_str_of raw_data)"
  by (induction raw_data arbitrary: dates) (simp_all add: collect_date_def)

lemma first_nonempty_timestamp_eq:
  "first_nonempty_timestamp item = (if truthy (date_str_of item) then Some (date_str_of item) else None)"
  by (cases "lookup item ''created_utc''"; cases "lookup item ''published_at''"; cases "lookup item ''date''")
     (simp_all add: first_nonempty_timestamp_def timestamp_fields_def date_str_of_def dict_get_def
        List.map_filter_simps)

lemma collected_dates:
  "filter truthy (map date_str_of raw_data) = List.map_filter first_nonempty_timestamp raw_data"
  by (induction raw_data) (simp_all add: first_nonempty_timestamp_eq List.map_filter_simps)

lemma min_from_strings:
  "min_from (PStr b) (map PStr xs) = Inr (PStr (fold min xs b))"
  by (induction xs arbitrary: b) (auto simp: min_def)

lemma max_from_strings:
  "max_from (PStr b) (map PStr xs) = Inr (PStr (fold max xs b))"
  by (induction xs arbitrary: b) (auto simp: max_def)

lemma py_min_strings: "ds \<noteq> [] \<Longrightarrow> py_min (map PStr ds) = Inr (PStr (Min (set ds)))"
proof (cases ds)
  case (Cons d rest)
  have "Min (set (d # rest)) = fold min rest d" by (rule Min.set_eq_fold)
  then show ?thesis using Cons by (simp add: min_from_strings)
qed simp

lemma py_max_strings: "ds \<noteq> [] \<Longrightarrow> py_max (map PStr ds) = Inr (PStr (Max (set ds)))"
proof (cases ds)
  case (Cons d rest)
  have "Max (set (d # rest)) = fold max rest d" by (rule Max.set_eq_fold)
  then show ?thesis using Cons by (simp add: max_from_strings)
qed simp

lemma strings_are_PStr: "\<forall>v \<in> set vs. is_str v \<Longrightarrow> map PStr (map str_of vs) = vs"
proof (induction vs)
  case (Cons v vs)
  then show ?case by (cases v) simp_all
qed simp

text \<open>
  Claim C7, as the code has it. Each record contributes the first of its fields
  \<open>created_utc\<close>, \<open>published_at\<close>, \<open>date\<close> that is present and not empty; a record with
  no such field contributes nothing. Where the contributed timestamps are strings, the
  range is their lexicographic minimum and maximum, and both bounds are \<open>N/A\<close> when no
  record contributes.
\<close>

theorem date_range_over_nonempty_timestamps:
  assumes "\<forall>item \<in> set raw_data. \<forall>v. first_nonempty_timestamp item = Some v \<longrightarrow> is_str v"
  shows "get_date_range raw_data = Inr (range_over first_nonempty_timestamp raw_data)"
proof -
  let ?vs = "List.map_filter first_nonempty_timestamp raw_data"
  have "\<forall>v \<in> set ?vs. is_str v"
    using assms by (auto simp: List.map_filter_def)
  then have vs: "map PStr (map str_of ?vs) = ?vs" by (rule strings_are_PStr)
  have dates: "fold collect_date raw_data [] = ?vs"
    by (simp add: fold_collect_date collected_dates)
  show ?thesis
  proof (cases "?vs = []")
    case True
    then show ?thesis by (simp add: get_date_range_def dates range_over_def)
  next
    case False
    then have ne: "map str_of ?vs \<noteq> []" by simp
    have lo: "py_min ?vs = Inr (PStr (Min (set (map str_of ?vs))))"
      using py_min_strings [OF ne] unfolding vs .
    have hi: "py_max ?vs = Inr (PStr (Max (set (map str_of ?vs))))"
      using py_max_strings [OF ne] unfolding vs .
    show ?thesis
      using False by (simp add: get_date_range_def dates lo hi Let_def range_over_def)
  qed
qed


theorem date_range_over_nonempty_timestamps_witness:
  \<open>get_date_range
       [[(PStr ''source'', PStr ''reddit''), (PStr ''created_utc'', PStr ''2024-03-01T10:00:00'')],
        [(PStr ''source'', PStr ''amazon''), (PStr ''created_utc'', PStr []), (PStr ''date'', PStr ''2024-01-05'')],
        [(PStr ''source'', PStr ''amazon'')],
        [(PStr ''published_at'', PStr ''2024-02-01T00:00:00Z''), (PStr ''date'', PStr ''2023-01-01'')]]
     = Inr [(PStr ''earliest'', PStr ''2024-01-05''), (PStr ''latest'', PStr ''2024-03-01T10:00:00'')]\<close>
proof -
  have h: \<open>\<forall>item \<in> set [[(PStr ''source'', PStr ''reddit''), (PStr ''created_utc'', PStr ''2024-03-01T10:00:00'')],
        [(PStr ''source'', PStr ''amazon''), (PStr ''created_utc'', PStr []), (PStr ''date'', PStr ''2024-01-05'')],
        [(PStr ''source'', PStr ''amazon'')],
        [(PStr ''published_at'', PStr ''2024-02-01T00:00:00Z''), (PStr ''date'', PStr ''2023-01-01'')]].
      \<forall>v. first_nonempty_timestamp item = Some v \<longrightarrow> is_str v\<close>
    by (simp add: first_nonempty_timestamp_def timestamp_fields_def lookup_def)
  show ?thesis
    using date_range_over_nonempty_timestamps [OF h]
    by (simp add: range_over_def first_nonempty_timestamp_def timestamp_fields_def lookup_def)
qed

text \<open>
  A field that is present but empty is passed over, where the claim takes the first
  present field: with an empty \<open>created_utc\<close> the range comes from \<open>date\<close>, and a record
  whose only timestamp field is an empty \<open>date\<close>, as the review connector produces it,
  is left out of the range.
\<close>

theorem date_range_first_present_counterexample:
  \<open>get_date_range [[(PStr ''created_utc'', PStr []), (PStr ''date'', PStr ''2024-01-05'')]]
     = Inr [(PStr ''earliest'', PStr ''2024-01-05''), (PStr ''latest'', PStr ''2024-01-05'')]
   \<and> range_over first_present_timestamp
         [[(PStr ''created_utc'', PStr []), (PStr ''date'', PStr ''2024-01-05'')]]
     = [(PStr ''earliest'', PStr []), (PStr ''latest'', PStr [])]
   \<and> get_date_range [[(PStr ''created_utc'', PStr []), (PStr ''date'', PStr ''2024-01-05'')]]
     \<noteq> Inr (range_over first_present_timestamp
              [[(PStr ''created_utc'', PStr []), (PStr ''date'', PStr ''2024-01-05'')]])
   \<and> get_date_range [[(PStr ''source'', PStr ''amazon''), (PStr ''date'', PStr [])]]
     = Inr [(PStr ''earliest'', PStr ''N/A''), (PStr ''latest'', PStr ''N/A'')]
   \<and> get_date_range [[(PStr ''source'', PStr ''amazon''), (PStr ''date'', PStr [])]]
     \<noteq> Inr (range_over first_present_timestamp
              [[(PStr ''source'', PStr ''amazon''), (PStr ''date'', PStr [])]])\<close>
  by (simp add: range_over_def first_present_timestamp_def timestamp_fields_def lookup_def
      get_date_range_def collect_date_def date_str_of_def dict_get_def)

section \<open>Properties of the renderer\<close>

subsection \<open>Section headers of the prose encoding\<close>

text \<open>
  Every entry that a loop of \<open>_generate_markdown\<close> appends starts with fixed text of its
  own (a bullet, a quotation mark, a third-level heading, bold text) or is empty, so no
  value of the message map can add or remove a section header.
\<close>

lemma md_section_headers_append [simp]:
  "md_section_headers (xs @ ys) = md_section_headers xs @ md_section_headers ys"
  by (simp add: md_section_headers_def)

lemma md_section_headers_Nil [simp]: "md_section_headers [] = []"
  by (simp add: md_section_headers_def)

lemma md_section_headers_Cons:
  "md_section_headers (e # es) =
     (if is_md_section e then [takeWhile (\<lambda>c. c \<noteq> CHR 0x0A) (drop 3 e)] else []) @ md_section_headers es"
  by (simp add: md_section_headers_def)

lemma for_each_no_headers:
  assumes "for_each f xs = Inr zs"
    and "\<And>x ys. f x = Inr ys \<Longrightarrow> md_section_headers ys = []"
  shows "md_section_headers zs = []"
  using assms(1)
proof (induction xs arbitrary: zs)
  case Nil
  then show ?case by simp
next
  case (Cons x xs)
  then show ?case
    by (auto split: sum.splits simp: assms(2))
qed

lemma for_in_no_headers:
  assumes "for_in v f = Inr zs"
    and "\<And>x ys. f x = Inr ys \<Longrightarrow> md_section_headers ys = []"
  shows "md_section_headers zs = []"
  using assms for_each_no_headers [of f _ zs]
  by (auto simp: for_in_def dest!: ebind_eq_Inr)

lemma not_section [simp]:
  "\<not> is_md_section []"
  "\<not> is_md_section (CHR ''-'' # s)"
  "\<not> is_md_section (CHR ''>'' # s)"
  "\<not> is_md_section (CHR ''*'' # s)"
  "\<not> is_md_section (CHR 0x0A # s)"
  "\<not> is_md_section (CHR ''#'' # CHR ''#'' # CHR ''#'' # s)"
  "\<not> is_md_section (CHR ''#'' # CHR '' '' # s)"
  by (simp_all add: is_md_section_def)

lemma md_quotes_no_headers: "md_quotes repr quotes = Inr ys \<Longrightarrow> md_section_headers ys = []"
  unfolding md_quotes_def
  by (erule for_in_no_headers) (auto simp: md_section_headers_Cons)

lemma md_bullets_no_headers: "md_bullets repr items = Inr ys \<Longrightarrow> md_section_headers ys = []"
  unfolding md_bullets_def
  by (erule for_in_no_headers) (auto simp: md_section_headers_Cons)

lemma md_summary_headers:
  "md_summary repr mm = Inr es \<Longrightarrow> md_section_headers es = [''Executive Summary'']"
  by (auto simp: md_summary_def Let_def md_section_headers_Cons is_md_section_def dest!: ebind_eq_Inr)

lemma md_key_insights_headers:
  "md_key_insights repr mm = Inr es \<Longrightarrow> md_section_headers es = [''Key Insights'']"
  by (auto simp: md_key_insights_def md_section_headers_Cons is_md_section_def
      dest!: ebind_eq_Inr md_bullets_no_headers)


lemma md_pain_point_no_headers: "md_pain_point repr ip = Inr ys \<Longrightarrow> md_section_headers ys = []"
  by (cases ip)
     (auto simp: md_pain_point_def md_section_headers_Cons dest!: ebind_eq_Inr md_quotes_no_headers)

lemma md_pain_points_headers:
  "md_pain_points repr mm = Inr es \<Longrightarrow> md_section_headers es = [''Pain Points'']"
  by (auto simp: md_pain_points_def md_section_headers_Cons is_md_section_def
      dest!: ebind_eq_Inr dest: for_each_no_headers [OF _ md_pain_point_no_headers])

lemma md_emotion_no_headers: "md_emotion repr title emotion = Inr ys \<Longrightarrow> md_section_headers ys = []"
  by (auto simp: md_emotion_def md_section_headers_Cons dest!: ebind_eq_Inr md_quotes_no_headers)

lemma md_emotions_headers:
  "md_emotions repr title mm = Inr es \<Longrightarrow> md_section_headers es = [''Emotional Patterns'']"
  by (auto simp: md_emotions_def md_section_headers_Cons is_md_section_def
      dest!: ebind_eq_Inr dest: for_in_no_headers [OF _ md_emotion_no_headers])

lemma md_stage_no_headers: "md_stage repr awareness st = Inr ys \<Longrightarrow> md_section_headers ys = []"
  by (cases st)
     (auto simp: md_stage_def md_section_headers_Cons split: if_splits
       dest!: ebind_eq_Inr md_quotes_no_headers md_bullets_no_headers)

lemma md_awareness_headers:
  "md_awareness repr mm = Inr es \<Longrightarrow> md_section_headers es = [''Customer Awareness Stages'']"
  by (auto simp: md_awareness_def md_section_headers_Cons is_md_section_def
      dest!: ebind_eq_Inr dest: for_each_no_headers [OF _ md_stage_no_headers])

lemma md_hook_group_no_headers: "md_hook_group repr title g = Inr ys \<Longrightarrow> md_section_headers ys = []"
  by (cases g)
     (auto simp: md_hook_group_def md_section_headers_Cons dest!: ebind_eq_Inr md_bullets_no_headers)

lemma md_hooks_headers:
  "md_hooks repr title mm = Inr es \<Longrightarrow> md_section_headers es = [''Ad-Ready Hooks'']"
  by (auto simp: md_hooks_def md_section_headers_Cons is_md_section_def
      dest!: ebind_eq_Inr dest: for_each_no_headers [OF _ md_hook_group_no_headers])

lemma md_framework_no_headers: "md_framework repr framework = Inr ys \<Longrightarrow> md_section_headers ys = []"
  by (auto simp: md_framework_def md_section_headers_Cons dest!: ebind_eq_Inr)

lemma md_frameworks_headers:
  "md_frameworks repr mm = Inr es \<Longrightarrow> md_section_headers es = [''Body Copy Frameworks'']"
  by (auto simp: md_frameworks_def md_section_headers_Cons is_md_section_def
      dest!: ebind_eq_Inr dest: for_in_no_headers [OF _ md_framework_no_headers])

lemma md_call_to_actions_headers:
  "md_call_to_actions repr mm = Inr es \<Longrightarrow> md_section_headers es = [''Call to Action Suggestions'']"
  by (auto simp: md_call_to_actions_def md_section_headers_Cons is_md_section_def
      dest!: ebind_eq_Inr md_bullets_no_headers)

lemma md_objection_no_headers: "md_objection repr obj = Inr ys \<Longrightarrow> md_section_headers ys = []"
  by (auto simp: md_objection_def md_section_headers_Cons dest!: ebind_eq_Inr)

lemma md_objections_headers:
  "md_objections repr mm = Inr es \<Longrightarrow> md_section_headers es = [''Objection Handlers'']"
  by (auto simp: md_objections_def md_section_headers_Cons is_md_section_def
      dest!: ebind_eq_Inr dest: for_in_no_headers [OF _ md_objection_no_headers])

lemma md_title_no_headers: "md_section_headers (md_title repr mm) = []"
  by (simp add: md_title_def md_section_headers_Cons)

lemma markdown_headers:
  assumes "markdown_entries repr title mm = Inr entries"
  shows "md_section_headers entries = prose_sections"
proof -
  from assms obtain summary insights pains emotions awareness hooks frameworks ctas objections
    where parts: "md_summary repr mm = Inr summary" "md_key_insights repr mm = Inr insights"
      "md_pain_points repr mm = Inr pains" "md_emotions repr title mm = Inr emotions"
      "md_awareness repr mm = Inr awareness" "md_hooks repr title mm = Inr hooks"
      "md_frameworks repr mm = Inr frameworks" "md_call_to_actions repr mm = Inr ctas"
      "md_objections repr mm = Inr objections"
    and entries: "entries = md_title repr mm @ summary @ insights @ pains @ emotions @ awareness
            @ hooks @ frameworks @ ctas @ objections"
    unfolding markdown_entries_def by (auto dest!: ebind_eq_Inr)
  show ?thesis
    unfolding entries prose_sections_def
    by (simp add: md_title_no_headers md_summary_headers [OF parts(1)]
        md_key_insights_headers [OF parts(2)] md_pain_points_headers [OF parts(3)]
        md_emotions_headers [OF parts(4)] md_awareness_headers [OF parts(5)]
        md_hooks_headers [OF parts(6)] md_frameworks_headers [OF parts(7)]
        md_call_to_actions_headers [OF parts(8)] md_objections_headers [OF parts(9)])
qed

subsection \<open>Section headers of the styled-document encoding\<close>

text \<open>
  A line of the template that ends with its newline and holds no \<open>h2\<close> element can be
  passed over, since the opening tag does not span a newline. This settles the long head
  of the document line by line.
\<close>

lemma skip_line:
  "h2_titles l = [] \<Longrightarrow> l \<noteq> [] \<Longrightarrow> last l = CHR 0x0A \<Longrightarrow> h2_titles (l @ rest) = h2_titles rest"
proof (induction l)
  case Nil
  then show ?case by simp
next
  case (Cons c l)
  from Cons.prems(1) have no: "take 4 (c # l) \<noteq> ''<h2>''" and l: "h2_titles l = []"
    by (auto split: if_splits)
  have "take 4 (c # l @ rest) \<noteq> ''<h2>''"
  proof (cases "length (c # l) \<ge> 4")
    case True
    then have "4 - length (c # l) = 0" by simp
    then have "take 4 ((c # l) @ rest) = take 4 (c # l)"
      by (simp only: take_append take_0 append_Nil2)
    then have eq: "take 4 (c # l @ rest) = take 4 (c # l)"
      by (simp only: append_Cons)
    show ?thesis unfolding eq by (rule no)
  next
    case False
    then have "length l < 3" by simp
    then consider "l = []" | x where "l = [x]" | x y where "l = [x, y]"
      by (cases l; cases "tl l"; cases "tl (tl l)") auto
    then show ?thesis using Cons.prems(3) by cases auto
  qed
  then have "h2_titles ((c # l) @ rest) = h2_titles (l @ rest)" by simp
  also have "\<dots> = h2_titles rest"
  proof (cases "l = []")
    case True then show ?thesis by simp
  next
    case False
    then show ?thesis using Cons.IH l Cons.prems(3) by simp
  qed
  finally show ?case .
qed

lemma skip_lines:
  "\<forall>l \<in> set ls. h2_titles l = [] \<and> l \<noteq> [] \<and> last l = CHR 0x0A \<Longrightarrow>
   h2_titles (concat ls @ rest) = h2_titles rest"
  by (induction ls) (simp_all add: skip_line)

lemma html_head_lines_plain:
  "\<forall>l \<in> set html_head_lines. h2_titles l = [] \<and> l \<noteq> [] \<and> last l = CHR 0x0A"
  unfolding html_head_lines_def by code_simp

lemma h2_document_head [simp]: "h2_titles html_document_head = []"
  unfolding html_document_head_def skip_lines [OF html_head_lines_plain] by simp

lemma h2_summary_open [simp]: "h2_titles html_summary_open = [''Executive Summary'']"
  by (simp add: html_summary_open_def)

lemma h2_key_insights_open [simp]: "h2_titles html_key_insights_open = [''Key Insights'']"
  by (simp add: html_key_insights_open_def)

lemma h2_pain_points_open [simp]: "h2_titles html_pain_points_open = [''Pain Points'']"
  by (simp add: html_pain_points_open_def)

lemma h2_hooks_open [simp]: "h2_titles html_hooks_open = [''Ad-Ready Hooks'']"
  by (simp add: html_hooks_open_def)

lemma h2_frameworks_open [simp]: "h2_titles html_frameworks_open = [''Body Copy Frameworks'']"
  by (simp add: html_frameworks_open_def)

lemma h2_document_end [simp]: "h2_titles html_document_end = []"
  by (simp add: html_document_end_def)

lemma html_section_headers_append [simp]:
  "html_section_headers (xs @ ys) = html_section_headers xs @ html_section_headers ys"
  by (simp add: html_section_headers_def)

lemma html_section_headers_Nil [simp]: "html_section_headers [] = []"
  by (simp add: html_section_headers_def)

lemma html_section_headers_Cons [simp]:
  "html_section_headers (p # ps) = piece_headers p @ html_section_headers ps"
  by (simp add: html_section_headers_def)

lemma for_each_plain:
  assumes "for_each f xs = Inr zs"
    and "\<And>x ys. f x = Inr ys \<Longrightarrow> html_section_headers ys = []"
  shows "html_section_headers zs = []"
  using assms(1)
proof (induction xs arbitrary: zs)
  case Nil
  then show ?case by simp
next
  case (Cons x xs)
  then show ?case
    by (auto split: sum.splits simp: assms(2))
qed

lemma for_in_plain:
  assumes "for_in v f = Inr zs"
    and "\<And>x ys. f x = Inr ys \<Longrightarrow> html_section_headers ys = []"
  shows "html_section_headers zs = []"
  using assms for_each_plain [of f _ zs]
  by (auto simp: for_in_def dest!: ebind_eq_Inr)

lemma html_insight_plain: "html_insight repr insight = Inr ys \<Longrightarrow> html_section_headers ys = []"
  by (auto simp: html_insight_def)

lemma html_quote_plain: "html_quote repr quote = Inr ys \<Longrightarrow> html_section_headers ys = []"
  by (auto simp: html_quote_def)

lemma html_hook_plain: "html_hook repr hook = Inr ys \<Longrightarrow> html_section_headers ys = []"
  by (auto simp: html_hook_def)

lemma html_pain_point_plain: "html_pain_point repr pain = Inr ys \<Longrightarrow> html_section_headers ys = []"
  by (auto simp: html_pain_point_def dest!: ebind_eq_Inr dest: for_in_plain [OF _ html_quote_plain])

lemma html_hook_group_plain: "html_hook_group repr title g = Inr ys \<Longrightarrow> html_section_headers ys = []"
  by (cases g)
     (auto simp: html_hook_group_def dest!: ebind_eq_Inr dest: for_in_plain [OF _ html_hook_plain])

lemma html_framework_plain: "html_framework repr framework = Inr ys \<Longrightarrow> html_section_headers ys = []"
  by (auto simp: html_framework_def dest!: ebind_eq_Inr)

lemma html_head_headers:
  "html_head repr mm = Inr ps \<Longrightarrow> html_section_headers ps = [''Executive Summary'', ''Key Insights'']"
  by (auto simp: html_head_def Let_def dest!: ebind_eq_Inr)

lemma html_headers:
  assumes "html_pieces repr title mm = Inr pieces"
  shows "html_section_headers pieces = styled_sections"
proof -
  from assms obtain head insights pains groups hooks frameworks
    where parts: "html_head repr mm = Inr head"
      "for_in (dict_get mm ''key_insights'' (PList [])) (html_insight repr) = Inr insights"
      "for_in (dict_get mm ''pain_points'' (PList [])) (html_pain_point repr) = Inr pains"
      "for_each (html_hook_group repr title) groups = Inr hooks"
      "for_in (dict_get mm ''body_copy_frameworks'' (PList [])) (html_framework repr) = Inr frameworks"
    and pieces: "pieces = head @ insights @ [Lit html_pain_points_open] @ pains @ [Lit html_hooks_open] @ hooks
            @ [Lit html_frameworks_open] @ frameworks @ [Lit html_document_end]"
    unfolding html_pieces_def by (auto dest!: ebind_eq_Inr)
  show ?thesis
    unfolding pieces styled_sections_def
    by (simp add: html_head_headers [OF parts(1)]
        for_in_plain [OF parts(2) html_insight_plain]
        for_in_plain [OF parts(3) html_pain_point_plain]
        for_each_plain [OF parts(4) html_hook_group_plain]
        for_in_plain [OF parts(5) html_framework_plain])
qed

subsection \<open>The two encodings side by side\<close>

lemmas md_defs = markdown_entries_def md_title_def md_summary_def md_key_insights_def md_bullets_def
  md_quotes_def md_pain_points_def md_pain_point_def md_emotions_def md_emotion_def md_awareness_def
  md_stage_def md_hooks_def md_hook_group_def md_frameworks_def md_framework_def
  md_call_to_actions_def md_objections_def md_objection_def for_in_def enumerate1_def stages_def
  dict_get_def lookup_def

lemmas html_defs = html_pieces_def html_head_def html_insight_def html_pain_point_def html_quote_def
  html_hook_group_def html_hook_def html_framework_def for_in_def dict_get_def lookup_def

text \<open>
  Claim C5, as the code has it. Whatever the message map holds, the section headers of
  the prose encoding are the nine of \<open>prose_sections\<close>, in this order, and those of the
  styled encoding are the five of \<open>styled_sections\<close>, in this order; a section with nothing
  in it still has its header. The styled encoding leaves out the emotional patterns, the
  awareness stages, the calls to action and the objection handlers; the sections it has
  come in the order of the prose encoding.
\<close>

theorem section_headers_of_both_encodings:
  "(markdown_entries repr title mm = Inr entries \<longrightarrow> md_section_headers entries = prose_sections)
   \<and> (html_pieces repr title mm = Inr pieces \<longrightarrow> html_section_headers pieces = styled_sections)
   \<and> subseq styled_sections prose_sections"
proof -
  have "subseq styled_sections prose_sections"
    by (simp add: styled_sections_def prose_sections_def)
  then show ?thesis
    by (simp add: markdown_headers html_headers)
qed

text \<open>Both renderers return on the report with an entry in every section.\<close>

theorem section_headers_of_both_encodings_witness:
  "\<exists>entries pieces.
     markdown_entries (\<lambda>v. []) sample_title sample_report = Inr entries
     \<and> html_pieces (\<lambda>v. []) sample_title sample_report = Inr pieces
     \<and> md_section_headers entries = prose_sections
     \<and> html_section_headers pieces = styled_sections"
proof -
  obtain entries where e: "markdown_entries (\<lambda>v. []) sample_title sample_report = Inr entries"
    by (simp add: md_defs sample_report_def sample_title_def list_index_def)
  obtain pieces where p: "html_pieces (\<lambda>v. []) sample_title sample_report = Inr pieces"
    by (simp add: html_defs sample_report_def sample_title_def)
  show ?thesis
    using e p section_headers_of_both_encodings
      [of "\<lambda>v. []" sample_title sample_report entries pieces]
    by simp
qed

text \<open>
  On the report that the assembler builds from empty inputs, the prose encoding has nine
  section headers and the styled encoding five: the two lists differ.
\<close>

theorem section_headers_counterexample:
  "generate_message_map ''2024-01-22T10:00:00'' [] [] None None = Inr empty_report
   \<and> map_sum id md_section_headers (markdown_entries (\<lambda>v. []) (\<lambda>s. s) empty_report)
     = Inr [''Executive Summary'', ''Key Insights'', ''Pain Points'', ''Emotional Patterns'',
            ''Customer Awareness Stages'', ''Ad-Ready Hooks'', ''Body Copy Frameworks'',
            ''Call to Action Suggestions'', ''Objection Handlers'']
   \<and> map_sum id html_section_headers (html_pieces (\<lambda>v. []) (\<lambda>s. s) empty_report)
     = Inr [''Executive Summary'', ''Key Insights'', ''Pain Points'', ''Ad-Ready Hooks'',
            ''Body Copy Frameworks'']
   \<and> map_sum id md_section_headers (markdown_entries (\<lambda>v. []) (\<lambda>s. s) empty_report)
     \<noteq> map_sum id html_section_headers (html_pieces (\<lambda>v. []) (\<lambda>s. s) empty_report)"
proof -
  have m: "generate_message_map ''2024-01-22T10:00:00'' [] [] None None = Inr empty_report"
    unfolding empty_report_def by (rule merge_of_empty_inputs)
  have a: "map_sum id md_section_headers (markdown_entries (\<lambda>v. []) (\<lambda>s. s) empty_report)
     = Inr [''Executive Summary'', ''Key Insights'', ''Pain Points'', ''Emotional Patterns'',
            ''Customer Awareness Stages'', ''Ad-Ready Hooks'', ''Body Copy Frameworks'',
            ''Call to Action Suggestions'', ''Objection Handlers'']"
    by (simp add: md_defs empty_report_def md_section_headers_Cons is_md_section_def)
  have b: "map_sum id html_section_headers (html_pieces (\<lambda>v. []) (\<lambda>s. s) empty_report)
     = Inr [''Executive Summary'', ''Key Insights'', ''Pain Points'', ''Ad-Ready Hooks'',
            ''Body Copy Frameworks'']"
    by (simp add: html_defs empty_report_def)
  show ?thesis unfolding a b using m by simp
qed


end
